theory Spec2Isabelle
  imports Main
begin

section \<open>Strings and the platform's form encoding\<close>

text \<open>
  A JavaScript string is modelled as a \<^typ>\<open>string\<close>: the list of the bytes of its UTF-8
  encoding, which is what the form encoding works on. An ASCII character is one byte. The
  strings of the model are the well-formed ones (no lone surrogate). The functions of this
  section are not code of the repository: they are the \<^verbatim>\<open>URLSearchParams\<close>, \<^verbatim>\<open>URL\<close>,
  \<^verbatim>\<open>Object.fromEntries\<close>, \<^verbatim>\<open>String.prototype.substring\<close> and \<^verbatim>\<open>Array.prototype.join\<close>
  of the JavaScript platform that the source calls, written after the URL standard
  (application/x-www-form-urlencoded serialising and parsing, percent decoding). The last
  step of the parser, the UTF-8 decoding that replaces ill-formed byte sequences by U+FFFD,
  is left out: the bytes that percent decoding gives are kept as they are, which is what
  the parser gives whenever they are well-formed, as the bytes of an encoded string are.
\<close>

definition hex_digit :: "nat \<Rightarrow> char" where
  "hex_digit n = (if n < 10 then char_of (48 + n) else char_of (55 + n))"

definition unhex :: "char \<Rightarrow> nat option" where
  "unhex c =
     (let n = (of_char c :: nat) in
      if 48 \<le> n \<and> n \<le> 57 then Some (n - 48)
      else if 65 \<le> n \<and> n \<le> 70 then Some (n - 55)
      else if 97 \<le> n \<and> n \<le> 102 then Some (n - 87)
      else None)"

definition percent_encode_byte :: "char \<Rightarrow> string" where
  "percent_encode_byte c =
     [CHR ''%'', hex_digit ((of_char c :: nat) div 16), hex_digit ((of_char c :: nat) mod 16)]"

text \<open>The bytes the form serialiser leaves as they are: ASCII letters and digits and \<^verbatim>\<open>*-._\<close>.\<close>

definition urlencoded_plain :: "char \<Rightarrow> bool" where
  "urlencoded_plain c =
     (let n = (of_char c :: nat) in
      (48 \<le> n \<and> n \<le> 57) \<or> (65 \<le> n \<and> n \<le> 90) \<or> (97 \<le> n \<and> n \<le> 122) \<or>
      n = 42 \<or> n = 45 \<or> n = 46 \<or> n = 95)"

definition urlencoded_byte :: "char \<Rightarrow> string" where
  "urlencoded_byte c =
     (if c = CHR '' '' then ''+''
      else if urlencoded_plain c then [c]
      else percent_encode_byte c)"

definition urlencoded_bytes :: "string \<Rightarrow> string" where
  "urlencoded_bytes s = concat (map urlencoded_byte s)"

text \<open>The alphabet of an encoded name or value: the plain bytes, \<^verbatim>\<open>+\<close> and \<^verbatim>\<open>%\<close>.\<close>

definition form_char :: "char \<Rightarrow> bool" where
  "form_char c = (urlencoded_plain c \<or> c = CHR ''+'' \<or> c = CHR ''%'')"

text \<open>
  Percent decoding: a \<^verbatim>\<open>%\<close> followed by two hexadecimal digits is the byte they denote;
  any other byte, also a \<^verbatim>\<open>%\<close> that is not followed by two hexadecimal digits, stays.
\<close>

fun percent_decode :: "string \<Rightarrow> string" where
  "percent_decode (c # h # l # rest) =
     (if c = CHR ''%'' then
        (case unhex h of
           None \<Rightarrow> c # percent_decode (h # l # rest)
         | Some a \<Rightarrow>
             (case unhex l of
                None \<Rightarrow> c # percent_decode (h # l # rest)
              | Some b \<Rightarrow> char_of (16 * a + b) # percent_decode rest))
      else c # percent_decode (h # l # rest))"
| "percent_decode (c # rest) = c # percent_decode rest"
| "percent_decode [] = []"

fun split_on :: "char \<Rightarrow> string \<Rightarrow> string list" where
  "split_on d [] = [[]]"
| "split_on d (c # cs) =
     (if c = d then [] # split_on d cs
      else (case split_on d cs of
              [] \<Rightarrow> [[c]]
            | x # xs \<Rightarrow> (c # x) # xs))"

definition plus_to_space :: "string \<Rightarrow> string" where
  "plus_to_space s = map (\<lambda>c. if c = CHR ''+'' then CHR '' '' else c) s"

text \<open>
  One sequence of the parser: the name is what stands before the first \<^verbatim>\<open>=\<close>, the value
  what stands after it (empty when there is no \<^verbatim>\<open>=\<close>); in both, \<^verbatim>\<open>+\<close> becomes a
  space and the result is percent-decoded.
\<close>

definition parse_pair :: "string \<Rightarrow> string \<times> string" where
  "parse_pair bytes =
     (let name = takeWhile (\<lambda>c. c \<noteq> CHR ''='') bytes;
          val = drop 1 (dropWhile (\<lambda>c. c \<noteq> CHR ''='') bytes)
      in (percent_decode (plus_to_space name), percent_decode (plus_to_space val)))"

definition urlencoded_parse :: "string \<Rightarrow> (string \<times> string) list" where
  "urlencoded_parse input =
     map parse_pair (filter (\<lambda>bytes. bytes \<noteq> []) (split_on (CHR ''&'') input))"

text \<open>\<^verbatim>\<open>new URLSearchParams(init)\<close> for a string: one leading \<^verbatim>\<open>?\<close> is removed, the rest parsed.\<close>

definition URLSearchParams_new :: "string \<Rightarrow> (string \<times> string) list" where
  "URLSearchParams_new init =
     urlencoded_parse (case init of
                         [] \<Rightarrow> []
                       | c # cs \<Rightarrow> if c = CHR ''?'' then cs else c # cs)"

definition serialize_pair :: "string \<times> string \<Rightarrow> string" where
  "serialize_pair p = urlencoded_bytes (fst p) @ ''='' @ urlencoded_bytes (snd p)"

text \<open>
  \<^verbatim>\<open>s.substring(1)\<close>: the string without its first UTF-16 code unit. A first character
  of one code unit has one byte (ASCII), two bytes (first byte below \<^verbatim>\<open>0xE0\<close>) or three
  bytes (first byte below \<^verbatim>\<open>0xF0\<close>), which are dropped. A first character of two code
  units has four bytes; what is left of it is its second code unit, a lone surrogate, which
  \<^verbatim>\<open>new URLSearchParams\<close>, the only reader of the result in the source, reads as U+FFFD
  (the bytes \<^verbatim>\<open>EF BF BD\<close>).
\<close>

definition substring1 :: "string \<Rightarrow> string" where
  "substring1 s =
     (case s of
        [] \<Rightarrow> []
      | b # bs \<Rightarrow>
          (let n = (of_char b :: nat) in
           if n < 192 then bs
           else if n < 224 then drop 1 bs
           else if n < 240 then drop 2 bs
           else [char_of (239 :: nat), char_of (191 :: nat), char_of (189 :: nat)] @ drop 3 bs))"

text \<open>\<^verbatim>\<open>Array.prototype.join\<close> on an array of strings.\<close>

fun join :: "string \<Rightarrow> string list \<Rightarrow> string" where
  "join sep [] = []"
| "join sep [x] = x"
| "join sep (x # y # ys) = x @ sep @ join sep (y # ys)"

text \<open>\<^verbatim>\<open>URLSearchParams.prototype.toString\<close>: the pairs as \<^verbatim>\<open>name=value\<close>, joined by \<^verbatim>\<open>&\<close>.\<close>

definition URLSearchParams_toString :: "(string \<times> string) list \<Rightarrow> string" where
  "URLSearchParams_toString ps = join ''&'' (map serialize_pair ps)"

text \<open>
  \<^verbatim>\<open>Object.fromEntries\<close>: the entries are stored in order, a later entry replacing an
  earlier one of the same key. The object is read only through \<^verbatim>\<open>in\<close> and by key, so it
  is a map.
\<close>

definition Object_fromEntries :: "(string \<times> string) list \<Rightarrow> (string \<rightharpoonup> string)" where
  "Object_fromEntries ps = foldl (\<lambda>obj kv. obj(fst kv \<mapsto> snd kv)) Map.empty ps"

text \<open>
  The decoding of a query string or fragment into an object, as \<open>parseCallbackData\<close>
  does it with \<^verbatim>\<open>Object.fromEntries(new URLSearchParams(...))\<close>: the spec's
  QueryCodec.decode.
\<close>

abbreviation QueryCodec_decode :: "string \<Rightarrow> (string \<rightharpoonup> string)" where
  "QueryCodec_decode s \<equiv> Object_fromEntries (URLSearchParams_new s)"


subsection \<open>URL objects\<close>

text \<open>
  A \<^verbatim>\<open>URL\<close> object, as far as the source uses it: the string it was constructed from (the
  endpoint: scheme, host and path) and its \<^verbatim>\<open>search\<close>. The endpoint constants of the
  repository carry no query and no fragment.
\<close>

record URL =
  endpoint :: string
  search :: string

definition URL_new :: "string \<Rightarrow> URL" where
  "URL_new s = \<lparr>endpoint = s, search = []\<rparr>"

text \<open>
  The bytes that the URL parser percent-encodes in the query of an \<^verbatim>\<open>https\<close> URL: the C0
  controls, the space, everything above \<^verbatim>\<open>~\<close>, and \<^verbatim>\<open>"#<>'\<close>. Tabs and newlines are
  removed from the input before.
\<close>

definition query_encode_set :: "char \<Rightarrow> bool" where
  "query_encode_set c =
     (let n = (of_char c :: nat) in
      n \<le> 32 \<or> 126 < n \<or> n = 34 \<or> n = 35 \<or> n = 60 \<or> n = 62 \<or> n = 39)"

definition tab_or_newline :: "char \<Rightarrow> bool" where
  "tab_or_newline c = (let n = (of_char c :: nat) in n = 9 \<or> n = 10 \<or> n = 13)"

definition query_encode :: "string \<Rightarrow> string" where
  "query_encode s =
     concat (map (\<lambda>c. if query_encode_set c then percent_encode_byte c else [c])
               (filter (\<lambda>c. \<not> tab_or_newline c) s))"

text \<open>
  The setter of \<^verbatim>\<open>url.search\<close>: the empty string clears the query; otherwise one leading
  \<^verbatim>\<open>?\<close> is removed and the rest becomes the query. The getter gives the empty string for
  an empty query and \<^verbatim>\<open>?\<close> followed by the query otherwise; the record holds what the
  getter gives.
\<close>

definition URL_set_search :: "URL \<Rightarrow> string \<Rightarrow> URL" where
  "URL_set_search u v =
     (let input = (case v of [] \<Rightarrow> [] | c # cs \<Rightarrow> if c = CHR ''?'' then cs else c # cs);
          query = query_encode input
      in u\<lparr>search := (if query = [] then [] else CHR ''?'' # query)\<rparr>)"

section \<open>Query parameters (shared)\<close>

text \<open>
  The values of a parameter object: a string, a number or a boolean; an optional property
  that is absent or \<^verbatim>\<open>undefined\<close> is \<open>None\<close>. The object itself is the list of its
  properties in insertion order. The numbers of the model are the integers, printed in
  decimal, as JavaScript prints the integers that a number holds exactly (all those of
  magnitude up to \<open>2\<^sup>5\<^sup>3\<close>).
\<close>

datatype qvalue = Str string | Num int | Bool bool

type_synonym SearchParams = "(string \<times> qvalue option) list"

text \<open>
  An object literal \<^verbatim>\<open>{k1: v1, ..., ...rest}\<close>: the properties are defined from left to
  right, those of a spread object at its place; a property whose key is already there
  replaces the value and keeps the place of the earlier one.
\<close>

definition object_define :: "SearchParams \<Rightarrow> string \<times> qvalue option \<Rightarrow> SearchParams" where
  "object_define obj kv =
     (if fst kv \<in> set (map fst obj)
      then map (\<lambda>p. if fst p = fst kv then kv else p) obj
      else obj @ [kv])"

definition object_literal :: "(string \<times> qvalue option) list \<Rightarrow> SearchParams" where
  "object_literal props = foldl object_define [] props"

fun digits :: "nat \<Rightarrow> string" where
  "digits n =
     (if n < 10 then [char_of (48 + n)]
      else digits (n div 10) @ [char_of (48 + n mod 10)])"

definition qvalue_toString :: "qvalue \<Rightarrow> string" where
  "qvalue_toString v =
     (case v of
        Str s \<Rightarrow> s
      | Num n \<Rightarrow> (if n < 0 then CHR ''-'' # digits (nat (- n)) else digits (nat n))
      | Bool b \<Rightarrow> (if b then ''true'' else ''false''))"

text \<open>
  Modelled from the spec: \<^verbatim>\<open>objectToSearchParams\<close> of the \<^verbatim>\<open>shared\<close> module, whose source
  is missing. It is the spec's QueryCodec.encode up to the \<^verbatim>\<open>URLSearchParams\<close> object: only
  the present entries, in insertion order, none more than once, each value as a string;
  omitted and undefined values are skipped.
\<close>

definition objectToSearchParams :: "SearchParams \<Rightarrow> (string \<times> string) list" where
  "objectToSearchParams obj =
     concat (map (\<lambda>kv. case snd kv of
                          None \<Rightarrow> []
                        | Some v \<Rightarrow> [(fst kv, qvalue_toString v)]) obj)"

text \<open>
  Modelled from the spec: \<^verbatim>\<open>toQueryString\<close> of the \<^verbatim>\<open>shared\<close> module, whose source is
  missing. It is the spec's QueryCodec.encode: the present entries, percent-encoded per
  the URL query rules and joined with \<^verbatim>\<open>&\<close>.
\<close>

definition toQueryString :: "SearchParams \<Rightarrow> string" where
  "toQueryString obj = URLSearchParams_toString (objectToSearchParams obj)"

section \<open>General definitions of the auth module\<close>

text \<open>
  Modelled from the spec: the constant \<^verbatim>\<open>URL_ENCODED\<close> of the \<^verbatim>\<open>general\<close> module, whose
  source is missing. It is the content type that the spec names for the token endpoint.
\<close>

definition URL_ENCODED :: string where
  "URL_ENCODED = ''application/x-www-form-urlencoded''"

text \<open>The base64 encoding of a string of bytes, with padding.\<close>

definition base64_char :: "nat \<Rightarrow> char" where
  "base64_char n =
     (if n < 26 then char_of (65 + n)
      else if n < 52 then char_of (71 + n)
      else if n < 62 then char_of (n - 4)
      else if n = 62 then CHR ''+'' else CHR ''/'')"

fun base64 :: "string \<Rightarrow> string" where
  "base64 (a # b # c # rest) =
     (let x = (of_char a :: nat); y = (of_char b :: nat); z = (of_char c :: nat) in
      [base64_char (x div 4), base64_char ((x mod 4) * 16 + y div 16),
       base64_char ((y mod 16) * 4 + z div 64), base64_char (z mod 64)] @ base64 rest)"
| "base64 [a, b] =
     (let x = (of_char a :: nat); y = (of_char b :: nat) in
      [base64_char (x div 4), base64_char ((x mod 4) * 16 + y div 16),
       base64_char ((y mod 16) * 4), CHR ''=''])"
| "base64 [a] =
     (let x = (of_char a :: nat) in
      [base64_char (x div 4), base64_char ((x mod 4) * 16), CHR ''='', CHR ''=''])"
| "base64 [] = []"

text \<open>
  Modelled from the spec: \<^verbatim>\<open>getBasicAuthHeader\<close> of the \<^verbatim>\<open>general\<close> module, whose source is
  missing. It is the spec's BasicAuthEncoder:
  \<^verbatim>\<open>"Basic " + base64(client_id + ":" + client_secret)\<close>, with no escaping.
\<close>

definition getBasicAuthHeader :: "string \<Rightarrow> string \<Rightarrow> string" where
  "getBasicAuthHeader client_id client_secret =
     ''Basic '' @ base64 (client_id @ '':'' @ client_secret)"

subsection \<open>Requests, responses and errors\<close>

text \<open>
  A JSON value, as \<^verbatim>\<open>res.json()\<close> gives it. A request is what \<^verbatim>\<open>fetch(url, init)\<close> is
  given: \<open>http_method\<close> is the \<^verbatim>\<open>method\<close> of \<^verbatim>\<open>init\<close>, and \<open>body\<close> is \<open>None\<close> when
  \<^verbatim>\<open>init\<close> has no body. A response has its status and the result of parsing its body as
  JSON: \<open>None\<close> when the body is not JSON, where \<^verbatim>\<open>res.json()\<close> rejects. \<^verbatim>\<open>res.ok\<close> is
  true for the statuses 200 to 299.
\<close>

datatype json =
    JNull
  | JBool bool
  | JNumber int
  | JString string
  | JArray "json list"
  | JObject "(string \<times> json) list"

record request =
  http_method :: string
  url :: URL
  headers :: "(string \<times> string) list"
  body :: "string option"

record response =
  status :: nat
  json :: "json option"

definition ok :: "response \<Rightarrow> bool" where
  "ok res = (200 \<le> status res \<and> status res \<le> 299)"

text \<open>
  What the operations throw: \<open>Error\<close> is a plain \<^verbatim>\<open>Error\<close> with its message,
  \<open>FetchRejected\<close> the rejection of \<^verbatim>\<open>fetch\<close> itself (no response arrived),
  \<open>JsonRejected\<close> the rejection of \<^verbatim>\<open>res.json()\<close>, and \<open>SpotifyAuthError\<close> the error
  of the auth module.
\<close>

datatype error =
    Error string
  | FetchRejected
  | JsonRejected
  | SpotifyAuthError "json option" nat

text \<open>
  Modelled from the spec: \<^verbatim>\<open>SpotifyAuthError.create\<close> of the \<^verbatim>\<open>general\<close> module, whose
  source is missing. The error (the spec's AuthError) carries the parsed error body and
  the HTTP status code; the spec does not say what it carries when the body is not JSON,
  and the model keeps \<open>None\<close> there.
\<close>

definition SpotifyAuthError_create :: "response \<Rightarrow> error" where
  "SpotifyAuthError_create res = SpotifyAuthError (json res) (status res)"

text \<open>
  The network: the token endpoint answers a request, given the requests it has received
  before, with a response, or \<open>None\<close> when no response arrives. \<^verbatim>\<open>fetch\<close> appends the
  request to the log of the requests issued and gives the answer.
\<close>

type_synonym server = "request list \<Rightarrow> request \<Rightarrow> response option"

definition fetch :: "server \<Rightarrow> request \<Rightarrow> request list \<Rightarrow> (error + response) \<times> request list" where
  "fetch srv req log =
     ((case srv log req of None \<Rightarrow> Inl FetchRejected | Some res \<Rightarrow> Inr res), log @ [req])"


section \<open>The authorization code flow (\<^verbatim>\<open>src/auth/auth_code.ts\<close>)\<close>

text \<open>
  The constant \<^verbatim>\<open>SPOTIFY_AUTH\<close> of the \<^verbatim>\<open>general\<close> module is missing from the source; the
  functions that use it take it as their first argument.
\<close>

record Creds =
  client_id :: string
  client_secret :: string

record AuthCode =
  creds :: Creds
  basicAuthHeader :: string

definition AuthCode_new :: "Creds \<Rightarrow> AuthCode" where
  "AuthCode_new c =
     \<lparr>creds = c,
      basicAuthHeader = getBasicAuthHeader (Creds.client_id c) (Creds.client_secret c)\<rparr>"

text \<open>
  The types of the declared properties of an options object: a property that must be
  there with a string, and one that may be missing or undefined and otherwise has a string
  or a boolean. The argument is the result of looking the property up.
\<close>

definition required_string :: "qvalue option option \<Rightarrow> bool" where
  "required_string v = (case v of Some (Some (Str s)) \<Rightarrow> True | _ \<Rightarrow> False)"

definition optional_string :: "qvalue option option \<Rightarrow> bool" where
  "optional_string v =
     (case v of None \<Rightarrow> True | Some None \<Rightarrow> True | Some (Some (Str s)) \<Rightarrow> True | _ \<Rightarrow> False)"

definition optional_boolean :: "qvalue option option \<Rightarrow> bool" where
  "optional_boolean v =
     (case v of None \<Rightarrow> True | Some None \<Rightarrow> True | Some (Some (Bool b)) \<Rightarrow> True | _ \<Rightarrow> False)"

text \<open>
  The argument of \<^verbatim>\<open>getAuthURL({ scopes, ...opts })\<close> is an object of the type
  \<^verbatim>\<open>GetAuthURLOpts\<close>. It is given here as the two parts that the parameter pattern binds:
  \<open>scopes\<close>, the value of its property \<^verbatim>\<open>scopes\<close> (\<open>None\<close> when it has none or an undefined
  one), and \<open>opts\<close>, its other own properties in the order they have in the object. The
  type declares \<^verbatim>\<open>redirect_uri\<close>, a string, and the optional \<^verbatim>\<open>state\<close>, a string, and
  \<^verbatim>\<open>show_dialog\<close>, a boolean. TypeScript checks only the declared properties of an object
  that is not a fresh literal, so \<open>opts\<close> may have further own properties, of any name
  (with the values of a parameter object, in this model).
  \<open>GetAuthURLOpts_typed\<close> says that \<open>opts\<close> is such a rest: an object (no key twice)
  without \<^verbatim>\<open>scopes\<close> whose declared properties have their declared types.
\<close>

definition GetAuthURLOpts_typed :: "SearchParams \<Rightarrow> bool" where
  "GetAuthURLOpts_typed opts =
     (distinct (map fst opts) \<and> ''scopes'' \<notin> set (map fst opts) \<and>
      required_string (map_of opts ''redirect_uri'') \<and>
      optional_string (map_of opts ''state'') \<and>
      optional_boolean (map_of opts ''show_dialog''))"

text \<open>
  The object literal of \<open>getAuthURL\<close>, which it gives to \<^verbatim>\<open>toQueryString\<close>: it has
  \<^verbatim>\<open>response_type\<close>, \<^verbatim>\<open>scope\<close> and \<^verbatim>\<open>client_id\<close> first and then the spread of \<^verbatim>\<open>opts\<close>,
  so that an own property of \<^verbatim>\<open>opts\<close> with one of these three names replaces the value that
  the literal gives. \<^verbatim>\<open>scopes?.join(" ")\<close> is undefined when there are no scopes.
\<close>

definition getAuthURL_object :: "AuthCode \<Rightarrow> string list option \<Rightarrow> SearchParams \<Rightarrow> SearchParams" where
  "getAuthURL_object this scopes opts =
     object_literal
       ([(''response_type'', Some (Str ''code'')),
         (''scope'', map_option (\<lambda>xs. Str (join '' '' xs)) scopes),
         (''client_id'', Some (Str (Creds.client_id (creds this))))] @
        opts)"

definition getAuthURL :: "string \<Rightarrow> AuthCode \<Rightarrow> string list option \<Rightarrow> SearchParams \<Rightarrow> URL" where
  "getAuthURL SPOTIFY_AUTH this scopes opts =
     URL_set_search (URL_new (SPOTIFY_AUTH @ ''authorize''))
       (toQueryString (getAuthURL_object this scopes opts))"

definition getGrantData ::
  "string \<Rightarrow> server \<Rightarrow> AuthCode \<Rightarrow> string \<Rightarrow> string \<Rightarrow> request list \<Rightarrow>
     (error + json) \<times> request list" where
  "getGrantData SPOTIFY_AUTH srv this redirect code log =
     (let u = URL_set_search (URL_new (SPOTIFY_AUTH @ ''api/token''))
                (toQueryString
                   [(''code'', Some (Str code)),
                    (''redirect_uri'', Some (Str redirect)),
                    (''grant_type'', Some (Str ''authorization_code''))]);
          (r, log') =
            fetch srv
              \<lparr>http_method = ''POST'', url = u,
               headers = [(''Authorization'', basicAuthHeader this),
                          (''Content-Type'', URL_ENCODED)],
               body = None\<rparr> log
      in case r of
           Inl e \<Rightarrow> (Inl e, log')
         | Inr res \<Rightarrow>
             if \<not> ok res then (Inl (SpotifyAuthError_create res), log')
             else (case json res of
                     None \<Rightarrow> (Inl JsonRejected, log')
                   | Some j \<Rightarrow> (Inr j, log')))"

definition refresh ::
  "string \<Rightarrow> server \<Rightarrow> AuthCode \<Rightarrow> string \<Rightarrow> request list \<Rightarrow>
     (error + json) \<times> request list" where
  "refresh SPOTIFY_AUTH srv this token log =
     (let u = URL_set_search (URL_new (SPOTIFY_AUTH @ ''api/token''))
                (toQueryString
                   [(''refresh_token'', Some (Str token)),
                    (''grant_type'', Some (Str ''refresh_token''))]);
          (r, log') =
            fetch srv
              \<lparr>http_method = ''POST'', url = u,
               headers = [(''Authorization'', basicAuthHeader this),
                          (''Content-Type'', URL_ENCODED)],
               body = None\<rparr> log
      in case r of
           Inl e \<Rightarrow> (Inl e, log')
         | Inr res \<Rightarrow>
             if \<not> ok res then (Inl (SpotifyAuthError_create res), log')
             else (case json res of
                     None \<Rightarrow> (Inl JsonRejected, log')
                   | Some j \<Rightarrow> (Inr j, log')))"

text \<open>
  \<^verbatim>\<open>createAuthProvider(refresh_token, opts)\<close> of the class. The options, when they are
  given, are an object whose declared type has no \<^verbatim>\<open>refresher\<close> property; an object that
  is not a fresh literal may still have one of its own, with a function or undefined as
  its value (\<open>own_refresher\<close>: \<open>None\<close> when the object has no such property). Its
  other properties are \<open>others\<close>.
\<close>

type_synonym token_refresher = "request list \<Rightarrow> (error + json) \<times> request list"

record 'o OmitRefresherOpts =
  own_refresher :: "token_refresher option option"
  others :: 'o

text \<open>
  The \<^verbatim>\<open>createAuthProvider\<close> of the \<^verbatim>\<open>general\<close> module that the method calls is missing
  from the source and is the first argument, so that what is proved holds whatever that
  function does. The object it is given is the literal \<^verbatim>\<open>{refresher: ..., ...opts}\<close>: the
  closure \<^verbatim>\<open>() => this.refresh(refresh_token)\<close> as \<^verbatim>\<open>refresher\<close> and then the spread of the
  options, where an own \<^verbatim>\<open>refresher\<close> property of the options replaces the closure. The
  object is the pair of the value of its \<^verbatim>\<open>refresher\<close> property (\<open>None\<close> when undefined)
  and of its other properties (\<open>None\<close> when no options are given).
\<close>

definition AuthCode_createAuthProvider ::
  "(token_refresher option \<times> 'o option \<Rightarrow> 'p) \<Rightarrow>
     string \<Rightarrow> server \<Rightarrow> AuthCode \<Rightarrow> string \<Rightarrow> 'o OmitRefresherOpts option \<Rightarrow> 'p" where
  "AuthCode_createAuthProvider createAuthProvider SPOTIFY_AUTH srv this token opts =
     createAuthProvider
       (case opts of
          None \<Rightarrow> (Some (\<lambda>log. refresh SPOTIFY_AUTH srv this token log), None)
        | Some obj \<Rightarrow>
            ((case own_refresher obj of
                None \<Rightarrow> Some (\<lambda>log. refresh SPOTIFY_AUTH srv this token log)
              | Some v \<Rightarrow> v),
             Some (others obj)))"

text \<open>The world after \<open>n\<close> invocations of an operation, one after the other.\<close>

fun invocations :: "('w \<Rightarrow> 'a \<times> 'w) \<Rightarrow> nat \<Rightarrow> 'w \<Rightarrow> 'w" where
  "invocations f 0 w = w"
| "invocations f (Suc n) w = invocations f n (snd (f w))"

section \<open>The implicit grant flow (\<^verbatim>\<open>auth/implicit_grant.ts\<close>)\<close>

text \<open>
  The constant \<^verbatim>\<open>AUTHORIZE_URL\<close> of the \<^verbatim>\<open>general\<close> module is missing from the source and
  is the first argument of \<open>getRedirectURL\<close>.
\<close>

text \<open>
  The argument of \<^verbatim>\<open>getRedirectURL({ scopes, ...opts })\<close>, of the type
  \<^verbatim>\<open>GetRedirectURLOpts\<close>, is given as in the authorization code flow: \<open>scopes\<close> and the
  other own properties \<open>opts\<close>. The type declares \<^verbatim>\<open>client_id\<close> and \<^verbatim>\<open>redirect_uri\<close>,
  strings, and the optional \<^verbatim>\<open>state\<close>, a string, and \<^verbatim>\<open>show_dialog\<close>, a boolean.
\<close>

definition GetRedirectURLOpts_typed :: "SearchParams \<Rightarrow> bool" where
  "GetRedirectURLOpts_typed opts =
     (distinct (map fst opts) \<and> ''scopes'' \<notin> set (map fst opts) \<and>
      required_string (map_of opts ''client_id'') \<and>
      required_string (map_of opts ''redirect_uri'') \<and>
      optional_string (map_of opts ''state'') \<and>
      optional_boolean (map_of opts ''show_dialog''))"

text \<open>
  The object literal of \<open>getRedirectURL\<close>, which it gives to \<^verbatim>\<open>objectToSearchParams\<close>: it
  has \<^verbatim>\<open>response_type\<close> and \<^verbatim>\<open>scope\<close> first and then the spread of \<^verbatim>\<open>opts\<close>, so that an own
  property of \<^verbatim>\<open>opts\<close> with one of these two names replaces the value that the literal
  gives.
\<close>

definition getRedirectURL_object :: "string list option \<Rightarrow> SearchParams \<Rightarrow> SearchParams" where
  "getRedirectURL_object scopes opts =
     object_literal
       ([(''response_type'', Some (Str ''token'')),
         (''scope'', map_option (\<lambda>xs. Str (join '' '' xs)) scopes)] @
        opts)"

definition getRedirectURL :: "string \<Rightarrow> string list option \<Rightarrow> SearchParams \<Rightarrow> URL" where
  "getRedirectURL AUTHORIZE_URL scopes opts =
     URL_set_search (URL_new AUTHORIZE_URL)
       (URLSearchParams_toString (objectToSearchParams (getRedirectURL_object scopes opts)))"

text \<open>
  The result of \<open>parseCallbackData\<close> is the decoded object in both returns; the narrowing
  of \<^verbatim>\<open>"error" in params\<close> gives the first the type \<^verbatim>\<open>CallbackErrorData\<close> and the second
  the type \<^verbatim>\<open>CallbackSuccessData\<close>, which the constructors record.
\<close>

datatype CallbackData =
    CallbackErrorData "string \<rightharpoonup> string"
  | CallbackSuccessData "string \<rightharpoonup> string"

definition parseCallbackData :: "string \<Rightarrow> error + CallbackData" where
  "parseCallbackData hash =
     (let params = Object_fromEntries (URLSearchParams_new (substring1 hash)) in
      if params ''error'' \<noteq> None then Inr (CallbackErrorData params)
      else if params ''access_token'' \<noteq> None \<and> params ''expires_in'' \<noteq> None \<and>
              params ''token_type'' \<noteq> None
      then Inr (CallbackSuccessData params)
      else Inl (Error ''Invalid params''))"

section \<open>The auth provider\<close>

text \<open>
  The provider that \<^verbatim>\<open>createAuthProvider\<close> of the \<^verbatim>\<open>general\<close> module builds is missing
  from the source. This section models it from the spec's AuthProvider. The world \<open>'w\<close>
  is what the refresh function acts on, and \<open>clock\<close> reads the current time in it.
\<close>

text \<open>
  Modelled from the spec: the token pair that the refresh function of a provider returns
  (the spec's TokenPair; its type in the \<^verbatim>\<open>general\<close> module is missing).
\<close>

record TokenPair =
  access_token :: string
  token_type :: string
  expires_in :: nat
  scope :: string
  refresh_token :: "string option"

text \<open>
  Modelled from the spec: the cached token of a provider (the spec's CachedToken), with
  the absolute time of its expiry.
\<close>

record CachedToken =
  access_token :: string
  expires_at :: int

text \<open>
  Modelled from the spec: the provider (the spec's AuthProvider), which holds its refresh
  function and its cached token; without a cached token it is in the state Empty.
\<close>

record 'w AuthProvider =
  refresher :: "'w \<Rightarrow> (error + TokenPair) \<times> 'w"
  cached :: "CachedToken option"

text \<open>
  Modelled from the spec: \<^verbatim>\<open>createAuthProvider\<close> of the \<^verbatim>\<open>general\<close> module, whose source is
  missing. The construction parameters are a refresh function and, optionally, a seeded
  token with its expiry.
\<close>

definition createAuthProvider ::
  "('w \<Rightarrow> (error + TokenPair) \<times> 'w) \<Rightarrow> CachedToken option \<Rightarrow> 'w AuthProvider" where
  "createAuthProvider r seed = \<lparr>refresher = r, cached = seed\<rparr>"

text \<open>
  Modelled from the spec: the states Empty and Expired of the provider, which has no cached
  token or one whose expiry time is not after the current time. Otherwise it is Valid.
\<close>

definition expired :: "('w \<Rightarrow> int) \<Rightarrow> 'w AuthProvider \<Rightarrow> 'w \<Rightarrow> bool" where
  "expired clock p w =
     (case cached p of None \<Rightarrow> True | Some c \<Rightarrow> expires_at c \<le> clock w)"

text \<open>
  Modelled from the spec: what \<open>getAccessToken\<close> does in the states Empty and Expired. It
  invokes the refresh function. On success the new token is cached with
  \<open>expires_at = now + expires_in\<close>, the time being read when the token arrives, and its
  access token is returned. On failure the provider is left as it was and the failure is
  passed on.
\<close>

definition refreshAccessToken ::
  "('w \<Rightarrow> int) \<Rightarrow> 'w AuthProvider \<Rightarrow> 'w \<Rightarrow> (error + string) \<times> 'w AuthProvider \<times> 'w" where
  "refreshAccessToken clock p w =
     (let (r, w') = refresher p w in
      case r of
        Inl e \<Rightarrow> (Inl e, p, w')
      | Inr t \<Rightarrow>
          (Inr (TokenPair.access_token t),
           p\<lparr>cached := Some \<lparr>CachedToken.access_token = TokenPair.access_token t,
                             expires_at = clock w' + int (expires_in t)\<rparr>\<rparr>,
           w'))"

text \<open>
  Modelled from the spec: \<open>getAccessToken\<close> of the provider, whose source is missing. It
  compares the current time with the expiry of the cached token: a cached token that has
  not expired is returned with no other effect, and otherwise the token is refreshed.
\<close>

definition getAccessToken ::
  "('w \<Rightarrow> int) \<Rightarrow> 'w AuthProvider \<Rightarrow> 'w \<Rightarrow> (error + string) \<times> 'w AuthProvider \<times> 'w" where
  "getAccessToken clock p w =
     (case cached p of
        None \<Rightarrow> refreshAccessToken clock p w
      | Some c \<Rightarrow>
          if clock w < expires_at c then (Inr (CachedToken.access_token c), p, w)
          else refreshAccessToken clock p w)"

text \<open>
  A refresh function with a counter of its invocations beside the world it acts on; the
  clock of such a world is the clock of the world.
\<close>

definition counting :: "('w \<Rightarrow> 'a \<times> 'w) \<Rightarrow> 'w \<times> nat \<Rightarrow> 'a \<times> ('w \<times> nat)" where
  "counting f wn = (let (x, w') = f (fst wn) in (x, (w', Suc (snd wn))))"


section \<open>Example values\<close>

text \<open>Concrete credentials and options, for the instances of the theorems below.\<close>

definition example_creds :: Creds where
  "example_creds = \<lparr>Creds.client_id = ''id'', client_secret = ''secret''\<rparr>"

definition example_scopes :: "string list" where
  "example_scopes = [''user-read-email'', ''user-read-email'', ''streaming'']"

definition example_auth_opts :: SearchParams where
  "example_auth_opts =
     [(''redirect_uri'', Some (Str ''http://localhost/cb'')), (''state'', Some (Str ''123abc''))]"

definition example_redirect_opts :: SearchParams where
  "example_redirect_opts =
     [(''show_dialog'', Some (Bool True)), (''client_id'', Some (Str ''id'')),
      (''redirect_uri'', Some (Str ''http://localhost/cb''))]"

text \<open>
  Options that an object which is not a fresh literal carries past the type check: an own
  \<^verbatim>\<open>response_type\<close> beside the declared properties, for each flow, and an own
  \<^verbatim>\<open>scope\<close>.
\<close>

definition example_auth_opts_response_type :: SearchParams where
  "example_auth_opts_response_type =
     [(''redirect_uri'', Some (Str ''http://localhost/cb'')),
      (''response_type'', Some (Str ''token''))]"

definition example_redirect_opts_response_type :: SearchParams where
  "example_redirect_opts_response_type =
     [(''client_id'', Some (Str ''id'')), (''redirect_uri'', Some (Str ''http://localhost/cb'')),
      (''response_type'', Some (Str ''code''))]"

definition example_auth_opts_scope :: SearchParams where
  "example_auth_opts_scope =
     [(''redirect_uri'', Some (Str ''http://localhost/cb'')),
      (''scope'', Some (Str ''user-read-private''))]"

definition example_redirect_opts_scope :: SearchParams where
  "example_redirect_opts_scope =
     [(''client_id'', Some (Str ''id'')), (''redirect_uri'', Some (Str ''http://localhost/cb'')),
      (''scope'', Some (Str ''user-read-private''))]"

text \<open>
  A token endpoint that grants every request with the token pair of the source's
  documentation, one that denies every request, and one that answers with a success
  status and a body that is not JSON.
\<close>

definition example_token_json :: json where
  "example_token_json =
     JObject [(''access_token'', JString ''NgCXRK''), (''token_type'', JString ''Bearer''),
              (''scope'', JString ''user-read-private user-read-email''),
              (''expires_in'', JNumber 3600), (''refresh_token'', JString ''NgAagA'')]"

definition server_granting :: server where
  "server_granting log req = Some \<lparr>status = 200, json = Some example_token_json\<rparr>"

definition server_denying :: server where
  "server_denying log req =
     Some \<lparr>status = 400, json = Some (JObject [(''error'', JString ''invalid_grant'')])\<rparr>"

definition server_not_json :: server where
  "server_not_json log req = Some \<lparr>status = 200, json = None\<rparr>"

text \<open>
  A refresher of the caller's own, which answers with the example token without a request
  to the token endpoint, and options that carry it as an own \<^verbatim>\<open>refresher\<close> property.
\<close>

definition example_own_refresher :: token_refresher where
  "example_own_refresher log = (Inr example_token_json, log)"

definition example_opts_refresher :: "unit OmitRefresherOpts" where
  "example_opts_refresher = \<lparr>own_refresher = Some (Some example_own_refresher), others = ()\<rparr>"

text \<open>
  For the provider: a world that is the time in seconds. The example refresh function
  takes one second; it fails before the time 100 and gives the example token pair from
  then on. The example seed is a token that expired at the time 50.
\<close>

definition example_pair :: TokenPair where
  "example_pair =
     \<lparr>TokenPair.access_token = ''NgCXRK'', token_type = ''Bearer'', expires_in = 3600,
      scope = ''user-read-private'', refresh_token = None\<rparr>"

definition example_refresher :: "int \<Rightarrow> (error + TokenPair) \<times> int" where
  "example_refresher w = (if w < 100 then Inl FetchRejected else Inr example_pair, w + 1)"

definition example_seed :: CachedToken where
  "example_seed = \<lparr>CachedToken.access_token = ''old'', expires_at = 50\<rparr>"

section \<open>The form encoding is inverted by the parser\<close>

declare digits.simps [simp del]

lemmas codec_eval =
  URLSearchParams_new_def urlencoded_parse_def parse_pair_def plus_to_space_def
  Object_fromEntries_def

lemma of_char_less_256: "(of_char c :: nat) < 256"
proof -
  have "(of_char c :: nat) mod 256 = of_char c" by (rule of_char_mod_256)
  moreover have "(of_char c :: nat) mod 256 < 256" by simp
  ultimately show ?thesis by simp
qed

lemma unhex_hex_digit: "n < 16 \<Longrightarrow> unhex (hex_digit n) = Some n"
  by (auto simp: unhex_def hex_digit_def Let_def)

lemma hex_digit_plain: "n < 16 \<Longrightarrow> urlencoded_plain (hex_digit n)"
  by (auto simp: urlencoded_plain_def hex_digit_def Let_def)

lemma percent_decode_plain_head:
  "c \<noteq> CHR ''%'' \<Longrightarrow> percent_decode (c # xs) = c # percent_decode xs"
  by (cases xs rule: percent_decode.cases) auto

lemma percent_decode_encoded_byte:
  "percent_decode (percent_encode_byte c @ rest) = c # percent_decode rest"
proof -
  let ?n = "of_char c :: nat"
  have d: "?n div 16 < 16"
    using of_char_less_256 [of c] by (simp add: less_mult_imp_div_less)
  have m: "?n mod 16 < 16" by simp
  have "char_of (16 * (?n div 16) + ?n mod 16) = c"
    by simp
  then show ?thesis
    using unhex_hex_digit [OF d] unhex_hex_digit [OF m]
    by (simp add: percent_encode_byte_def)
qed

lemma urlencoded_plain_not_special:
  "urlencoded_plain c \<Longrightarrow>
     c \<noteq> CHR ''%'' \<and> c \<noteq> CHR ''+'' \<and> c \<noteq> CHR ''&'' \<and> c \<noteq> CHR ''='' \<and> c \<noteq> CHR ''?''"
  by (auto simp: urlencoded_plain_def Let_def)

lemma plus_to_space_encoded_byte:
  "plus_to_space (percent_encode_byte c) = percent_encode_byte c"
proof -
  let ?n = "of_char c :: nat"
  have d: "?n div 16 < 16"
    using of_char_less_256 [of c] by (simp add: less_mult_imp_div_less)
  have m: "?n mod 16 < 16" by simp
  show ?thesis
    using urlencoded_plain_not_special [OF hex_digit_plain [OF d]]
      urlencoded_plain_not_special [OF hex_digit_plain [OF m]]
    by (simp add: plus_to_space_def percent_encode_byte_def)
qed

lemma plus_to_space_append: "plus_to_space (xs @ ys) = plus_to_space xs @ plus_to_space ys"
  by (simp add: plus_to_space_def)

lemma urlencoded_bytes_Cons:
  "urlencoded_bytes (c # s) = urlencoded_byte c @ urlencoded_bytes s"
  by (simp add: urlencoded_bytes_def)

lemma decode_urlencoded_bytes:
  "percent_decode (plus_to_space (urlencoded_bytes s)) = s"
proof (induction s)
  case Nil
  show ?case by (simp add: urlencoded_bytes_def plus_to_space_def)
next
  case (Cons c s)
  consider (space) "c = CHR '' ''" | (plain) "c \<noteq> CHR '' ''" "urlencoded_plain c"
    | (other) "c \<noteq> CHR '' ''" "\<not> urlencoded_plain c"
    by blast
  then show ?case
  proof cases
    case space
    then show ?thesis
      using Cons.IH
      by (simp add: urlencoded_bytes_Cons urlencoded_byte_def plus_to_space_def percent_decode_plain_head)
  next
    case plain
    then show ?thesis
      using Cons.IH urlencoded_plain_not_special [of c]
      by (simp add: urlencoded_bytes_Cons urlencoded_byte_def plus_to_space_def percent_decode_plain_head)
  next
    case other
    then show ?thesis
      using Cons.IH
      by (simp add: urlencoded_bytes_Cons urlencoded_byte_def plus_to_space_append plus_to_space_encoded_byte
          percent_decode_encoded_byte)
  qed
qed

lemma form_char_urlencoded_bytes: "list_all form_char (urlencoded_bytes s)"
proof (induction s)
  case Nil
  show ?case by (simp add: urlencoded_bytes_def)
next
  case (Cons c s)
  let ?n = "of_char c :: nat"
  have d: "?n div 16 < 16"
    using of_char_less_256 [of c] by (simp add: less_mult_imp_div_less)
  have m: "?n mod 16 < 16" by simp
  have "list_all form_char (urlencoded_byte c)"
    using hex_digit_plain [OF d] hex_digit_plain [OF m]
    by (simp add: urlencoded_byte_def percent_encode_byte_def form_char_def)
  then show ?case
    using Cons.IH by (simp add: urlencoded_bytes_def)
qed

lemma split_on_not_Nil: "split_on d xs \<noteq> []"
  by (induction xs) (auto split: list.splits)

lemma split_on_absent: "d \<notin> set a \<Longrightarrow> split_on d a = [a]"
  by (induction a) auto

lemma split_on_append:
  "d \<notin> set a \<Longrightarrow> split_on d (a @ d # b) = a # split_on d b"
  by (induction a) (auto split: list.splits simp: split_on_not_Nil)

lemma split_on_join:
  "xs \<noteq> [] \<Longrightarrow> list_all (\<lambda>x. d \<notin> set x) xs \<Longrightarrow> split_on d (join [d] xs) = xs"
proof (induction "[d]" xs rule: join.induct)
  case 1
  then show ?case by simp
next
  case (2 x)
  then show ?case by (simp add: split_on_absent)
next
  case (3 x y ys)
  then show ?case by (simp add: split_on_append)
qed

lemma form_char_not_delimiter:
  "form_char c \<Longrightarrow> c \<noteq> CHR ''&'' \<and> c \<noteq> CHR ''='' \<and> c \<noteq> CHR ''?''"
  using urlencoded_plain_not_special [of c] by (auto simp: form_char_def)

lemma urlencoded_bytes_no_delimiter:
  "CHR ''&'' \<notin> set (urlencoded_bytes s)" "CHR ''='' \<notin> set (urlencoded_bytes s)"
  "CHR ''?'' \<notin> set (urlencoded_bytes s)"
  using form_char_urlencoded_bytes [of s] form_char_not_delimiter
  by (auto simp: list_all_iff)

lemma parse_pair_serialize_pair: "parse_pair (serialize_pair p) = p"
proof -
  have t: "takeWhile (\<lambda>c. c \<noteq> CHR ''='') (serialize_pair p) = urlencoded_bytes (fst p)"
    using urlencoded_bytes_no_delimiter(2) [of "fst p"]
    by (auto simp: serialize_pair_def takeWhile_tail)
  have d: "dropWhile (\<lambda>c. c \<noteq> CHR ''='') (serialize_pair p) = CHR ''='' # urlencoded_bytes (snd p)"
    using urlencoded_bytes_no_delimiter(2) [of "fst p"]
    by (auto simp: serialize_pair_def dropWhile_append3)
  show ?thesis
    by (simp add: parse_pair_def t d decode_urlencoded_bytes)
qed

lemma serialize_pair_shape:
  "serialize_pair p \<noteq> []" "CHR ''&'' \<notin> set (serialize_pair p)"
  "hd (serialize_pair p) \<noteq> CHR ''?''"
proof -
  show "serialize_pair p \<noteq> []" by (simp add: serialize_pair_def)
  show "CHR ''&'' \<notin> set (serialize_pair p)"
    using urlencoded_bytes_no_delimiter(1) by (simp add: serialize_pair_def)
  show "hd (serialize_pair p) \<noteq> CHR ''?''"
    using urlencoded_bytes_no_delimiter(3) [of "fst p"]
    by (cases "urlencoded_bytes (fst p)") (auto simp: serialize_pair_def)
qed

lemma urlencoded_parse_toString:
  "urlencoded_parse (URLSearchParams_toString ps) = ps"
proof (cases ps)
  case Nil
  then show ?thesis by (simp add: urlencoded_parse_def URLSearchParams_toString_def)
next
  case (Cons p ps')
  have "split_on (CHR ''&'') (join ''&'' (map serialize_pair ps)) = map serialize_pair ps"
    using Cons by (intro split_on_join) (simp_all add: list_all_iff serialize_pair_shape)
  moreover have "filter (\<lambda>bytes. bytes \<noteq> []) (map serialize_pair ps) = map serialize_pair ps"
    by (simp add: filter_id_conv serialize_pair_shape)
  ultimately show ?thesis
    by (simp add: urlencoded_parse_def URLSearchParams_toString_def parse_pair_serialize_pair
        map_idI)
qed

lemma toString_head: "URLSearchParams_toString ps = c # cs \<Longrightarrow> c \<noteq> CHR ''?''"
proof (cases ps)
  case Nil
  then show "URLSearchParams_toString ps = c # cs \<Longrightarrow> c \<noteq> CHR ''?''"
    by (simp add: URLSearchParams_toString_def)
next
  case (Cons p ps')
  assume eq: "URLSearchParams_toString ps = c # cs"
  have "hd (URLSearchParams_toString ps) = hd (serialize_pair p)"
    using Cons serialize_pair_shape(1) [of p]
    by (cases ps') (simp_all add: URLSearchParams_toString_def)
  then show "c \<noteq> CHR ''?''"
    using eq serialize_pair_shape(3) [of p] by simp
qed


lemma URLSearchParams_new_question:
  "URLSearchParams_new (CHR ''?'' # URLSearchParams_toString ps) = ps"
  by (simp add: URLSearchParams_new_def urlencoded_parse_toString)



section \<open>The callback of the implicit grant flow\<close>





text \<open>
  Claim C3. For every fragment string, \<open>parseCallbackData\<close> returns the failure shape
  (\<open>CallbackErrorData\<close>) whenever the decoded parameters have the key \<^verbatim>\<open>error\<close>; when
  they have not, it returns the success shape (\<open>CallbackSuccessData\<close>) exactly when
  \<^verbatim>\<open>access_token\<close>, \<^verbatim>\<open>expires_in\<close> and \<^verbatim>\<open>token_type\<close> are all present; in every other
  case it throws the error \<^verbatim>\<open>Invalid params\<close> and returns no value. The decoded parameters
  are those of the argument without its first character.
\<close>

theorem parseCallbackData_shapes:
  "(let params = QueryCodec_decode (substring1 hash) in
     (params ''error'' \<noteq> None \<longrightarrow> parseCallbackData hash = Inr (CallbackErrorData params)) \<and>
     (params ''error'' = None \<longrightarrow>
        (parseCallbackData hash = Inr (CallbackSuccessData params)) =
        ({''access_token'', ''expires_in'', ''token_type''} \<subseteq> dom params)) \<and>
     (params ''error'' = None \<and> \<not> {''access_token'', ''expires_in'', ''token_type''} \<subseteq> dom params \<longrightarrow>
        parseCallbackData hash = Inl (Error ''Invalid params'')))"
  by (auto simp: parseCallbackData_def Let_def)

text \<open>
  The three callbacks of the spec: a denied authorization, a granted one and a fragment
  that is neither.
\<close>

theorem parseCallbackData_shapes_witness:
  "parseCallbackData ''#error=access_denied&state=xyz'' =
     Inr (CallbackErrorData [''error'' \<mapsto> ''access_denied'', ''state'' \<mapsto> ''xyz'']) \<and>
   parseCallbackData ''#access_token=abc&token_type=Bearer&expires_in=3600'' =
     Inr (CallbackSuccessData
       [''access_token'' \<mapsto> ''abc'', ''token_type'' \<mapsto> ''Bearer'', ''expires_in'' \<mapsto> ''3600'']) \<and>
   parseCallbackData ''#foo=bar'' = Inl (Error ''Invalid params'')"
proof -
  have f: "QueryCodec_decode (substring1 ''#error=access_denied&state=xyz'') =
      [''error'' \<mapsto> ''access_denied'', ''state'' \<mapsto> ''xyz'']"
    by (simp add: substring1_def codec_eval)
  have s: "QueryCodec_decode
        (substring1 ''#access_token=abc&token_type=Bearer&expires_in=3600'') =
      [''access_token'' \<mapsto> ''abc'', ''token_type'' \<mapsto> ''Bearer'', ''expires_in'' \<mapsto> ''3600'']"
    by (simp add: substring1_def codec_eval)
  have b: "QueryCodec_decode (substring1 ''#foo=bar'') = [''foo'' \<mapsto> ''bar'']"
    by (simp add: substring1_def codec_eval)
  have 1: "parseCallbackData ''#error=access_denied&state=xyz'' =
     Inr (CallbackErrorData [''error'' \<mapsto> ''access_denied'', ''state'' \<mapsto> ''xyz''])"
    using parseCallbackData_shapes [of "''#error=access_denied&state=xyz''"]
    unfolding Let_def f by simp
  have 2: "parseCallbackData ''#access_token=abc&token_type=Bearer&expires_in=3600'' =
     Inr (CallbackSuccessData
       [''access_token'' \<mapsto> ''abc'', ''token_type'' \<mapsto> ''Bearer'', ''expires_in'' \<mapsto> ''3600''])"
    using parseCallbackData_shapes [of "''#access_token=abc&token_type=Bearer&expires_in=3600''"]
    unfolding Let_def s by simp
  have 3: "parseCallbackData ''#foo=bar'' = Inl (Error ''Invalid params'')"
    using parseCallbackData_shapes [of "''#foo=bar''"]
    unfolding Let_def b by simp
  from 1 2 3 show ?thesis by blast
qed



section \<open>Authorization URLs\<close>

subsection \<open>What the setter of the search keeps, and what the decoding gives\<close>

lemma query_encode_form_char:
  "form_char c \<or> c = CHR ''='' \<or> c = CHR ''&'' \<Longrightarrow> \<not> query_encode_set c \<and> \<not> tab_or_newline c"
  by (auto simp: form_char_def urlencoded_plain_def query_encode_set_def tab_or_newline_def Let_def)

lemma query_encode_id:
  "list_all (\<lambda>c. form_char c \<or> c = CHR ''='' \<or> c = CHR ''&'') s \<Longrightarrow> query_encode s = s"
proof (induction s)
  case Nil
  show ?case by (simp add: query_encode_def)
next
  case (Cons c s)
  then have "\<not> query_encode_set c \<and> \<not> tab_or_newline c"
    using query_encode_form_char [of c] by simp
  moreover have "query_encode s = s" using Cons by simp
  ultimately show ?case by (simp add: query_encode_def)
qed

lemma serialize_pair_alphabet:
  "list_all (\<lambda>c. form_char c \<or> c = CHR ''='' \<or> c = CHR ''&'') (serialize_pair p)"
  using form_char_urlencoded_bytes [of "fst p"] form_char_urlencoded_bytes [of "snd p"]
  by (auto simp: serialize_pair_def list_all_iff)

lemma join_alphabet:
  "list_all (list_all P) xs \<Longrightarrow> list_all P sep \<Longrightarrow> list_all P (join sep xs)"
  by (induction sep xs rule: join.induct) auto

lemma toString_alphabet:
  "list_all (\<lambda>c. form_char c \<or> c = CHR ''='' \<or> c = CHR ''&'') (URLSearchParams_toString ps)"
  unfolding URLSearchParams_toString_def
  by (rule join_alphabet) (simp_all add: list_all_iff serialize_pair_alphabet [unfolded list_all_iff])

lemma toString_Nil_iff: "URLSearchParams_toString ps = [] \<longleftrightarrow> ps = []"
proof (cases ps)
  case Nil
  then show ?thesis by (simp add: URLSearchParams_toString_def)
next
  case (Cons p ps')
  then show ?thesis
    using serialize_pair_shape(1) [of p]
    by (cases ps') (simp_all add: URLSearchParams_toString_def)
qed

lemma URL_set_search_toString:
  "URL_set_search u (URLSearchParams_toString ps) =
     u\<lparr>search := (if ps = [] then [] else CHR ''?'' # URLSearchParams_toString ps)\<rparr>"
proof (cases "URLSearchParams_toString ps")
  case Nil
  then show ?thesis
    using toString_Nil_iff [of ps] by (simp add: URL_set_search_def query_encode_def)
next
  case (Cons c cs)
  then have "c \<noteq> CHR ''?''" by (rule toString_head)
  moreover have "query_encode (c # cs) = c # cs"
    using toString_alphabet [of ps] Cons by (simp add: query_encode_id)
  moreover have "ps \<noteq> []" using Cons toString_Nil_iff [of ps] by auto
  ultimately show ?thesis using Cons by (simp add: URL_set_search_def)
qed

lemma URLSearchParams_new_search:
  "URLSearchParams_new (search (URL_set_search u (URLSearchParams_toString ps))) = ps"
  by (simp add: URL_set_search_toString URLSearchParams_new_question)
    (simp add: URLSearchParams_new_def urlencoded_parse_def)

lemma Object_fromEntries_distinct:
  "distinct (map fst ps) \<Longrightarrow> Object_fromEntries ps = map_of ps"
proof -
  have "distinct (map fst ps) \<Longrightarrow>
      foldl (\<lambda>obj kv. obj(fst kv \<mapsto> snd kv)) m ps = m ++ map_of ps" for m
  proof (induction ps arbitrary: m)
    case Nil
    show ?case by simp
  next
    case (Cons kv ps)
    let ?f = "\<lambda>obj kv. obj(fst kv \<mapsto> snd kv)"
    have absent: "map_of ps (fst kv) = None"
      using Cons.prems by (simp add: map_of_eq_None_iff)
    have "foldl ?f m (kv # ps) = foldl ?f (m(fst kv \<mapsto> snd kv)) ps"
      by simp
    also have "\<dots> = m(fst kv \<mapsto> snd kv) ++ map_of ps"
      using Cons.prems by (intro Cons.IH) simp
    also have "\<dots> = m ++ (map_of ps)(fst kv \<mapsto> snd kv)"
      using absent by (auto simp: map_add_def fun_eq_iff split: option.splits)
    also have "\<dots> = m ++ map_of (kv # ps)"
      by (cases kv) simp
    finally show ?case .
  qed
  then show "distinct (map fst ps) \<Longrightarrow> Object_fromEntries ps = map_of ps"
    by (simp add: Object_fromEntries_def)
qed

lemma objectToSearchParams_keys:
  "set (map fst (objectToSearchParams obj)) \<subseteq> set (map fst obj)"
  by (induction obj) (auto simp: objectToSearchParams_def split: option.splits)

lemma objectToSearchParams_Cons:
  "objectToSearchParams ((k, v) # obj) =
     (case v of None \<Rightarrow> [] | Some x \<Rightarrow> [(k, qvalue_toString x)]) @ objectToSearchParams obj"
  by (cases v) (simp_all add: objectToSearchParams_def)

lemma objectToSearchParams_distinct:
  "distinct (map fst obj) \<Longrightarrow> distinct (map fst (objectToSearchParams obj))"
proof (induction obj)
  case Nil
  show ?case by (simp add: objectToSearchParams_def)
next
  case (Cons kv obj)
  obtain k v where kv: "kv = (k, v)" by (cases kv)
  have "k \<notin> set (map fst (objectToSearchParams obj))"
    using Cons.prems objectToSearchParams_keys [of obj] kv by auto
  then show ?case
    using Cons kv by (cases v) (simp_all add: objectToSearchParams_Cons)
qed

lemma map_of_objectToSearchParams:
  "distinct (map fst obj) \<Longrightarrow>
     map_of (objectToSearchParams obj) k =
       (case map_of obj k of Some (Some v) \<Rightarrow> Some (qvalue_toString v) | _ \<Rightarrow> None)"
proof (induction obj)
  case Nil
  show ?case by (simp add: objectToSearchParams_def)
next
  case (Cons kv obj)
  obtain k' v where kv: "kv = (k', v)" by (cases kv)
  have absent: "map_of (objectToSearchParams obj) k' = None"
    using Cons.prems objectToSearchParams_keys [of obj] kv
    by (auto simp: map_of_eq_None_iff)
  show ?case
    using Cons kv absent by (cases v) (auto simp: objectToSearchParams_Cons)
qed


lemma map_of_object_define:
  "map_of (object_define obj kv) = (map_of obj)(fst kv \<mapsto> snd kv)"
proof (cases "fst kv \<in> set (map fst obj)")
  case True
  have "map_of (map (\<lambda>p. if fst p = fst kv then kv else p) xs) =
      (if fst kv \<in> set (map fst xs) then (map_of xs)(fst kv \<mapsto> snd kv) else map_of xs)" for xs
    by (induction xs) (auto simp: fun_eq_iff)
  then show ?thesis using True by (simp add: object_define_def)
next
  case False
  then have "map_of obj (fst kv) = None" by (simp add: map_of_eq_None_iff)
  then show ?thesis
    using False by (auto simp: object_define_def fun_eq_iff map_add_def split: option.splits)
qed

lemma distinct_object_define:
  "distinct (map fst obj) \<Longrightarrow> distinct (map fst (object_define obj kv))"
proof -
  assume d: "distinct (map fst obj)"
  have "map fst (map (\<lambda>p. if fst p = fst kv then kv else p) obj) = map fst obj"
    by (induction obj) auto
  then have "map fst (object_define obj kv) =
      (if fst kv \<in> set (map fst obj) then map fst obj else map fst obj @ [fst kv])"
    by (simp only: object_define_def if_distrib [of "map fst"] map_append list.map)
  then show "distinct (map fst (object_define obj kv))"
    using d by (simp split: if_splits)
qed

lemma foldl_object_define:
  "distinct (map fst acc) \<Longrightarrow>
     distinct (map fst (foldl object_define acc props)) \<and>
     map_of (foldl object_define acc props) = map_of acc ++ map_of (rev props)"
proof (induction props arbitrary: acc)
  case Nil
  then show ?case by simp
next
  case (Cons p props)
  have d: "distinct (map fst (object_define acc p))"
    using Cons.prems by (rule distinct_object_define)
  have "map_of (object_define acc p) ++ map_of (rev props) =
      map_of acc ++ map_of (rev (p # props))"
    by (simp add: map_of_object_define fun_eq_iff map_add_def split: option.splits)
  then show ?case using Cons.IH [OF d] by simp
qed

lemma distinct_object_literal: "distinct (map fst (object_literal props))"
  using foldl_object_define [of "[]" props] by (simp add: object_literal_def)

lemma map_of_object_literal: "map_of (object_literal props) = map_of (rev props)"
  using foldl_object_define [of "[]" props] by (simp add: object_literal_def)

lemma map_of_rev_distinct: "distinct (map fst xs) \<Longrightarrow> map_of (rev xs) = map_of xs"
  by (rule map_of_inject_set [THEN iffD2]) (simp_all add: rev_map [symmetric])

lemma filter_key_distinct:
  "distinct (map fst xs) \<Longrightarrow>
     filter (\<lambda>kv. fst kv = k) xs = (case map_of xs k of None \<Rightarrow> [] | Some v \<Rightarrow> [(k, v)])"
proof (induction xs)
  case Nil
  show ?case by simp
next
  case (Cons x xs)
  show ?case
  proof (cases "fst x = k")
    case True
    then have "k \<notin> fst ` set xs" using Cons.prems by auto
    then have "filter (\<lambda>kv. fst kv = k) xs = []" by (auto simp: filter_empty_conv)
    then show ?thesis using True by (cases x) simp
  next
    case False
    then show ?thesis using Cons by (cases x) auto
  qed
qed

lemma key_of_objectToSearchParams:
  "distinct (map fst obj) \<Longrightarrow>
     (k \<in> fst ` set (objectToSearchParams obj)) = (\<exists>v. map_of obj k = Some (Some v))"
proof -
  assume d: "distinct (map fst obj)"
  have "(k \<in> fst ` set (objectToSearchParams obj)) = (map_of (objectToSearchParams obj) k \<noteq> None)"
    by (simp add: map_of_eq_None_iff)
  also have "\<dots> = (\<exists>v. map_of obj k = Some (Some v))"
    by (simp add: map_of_objectToSearchParams [OF d] split: option.splits)
  finally show ?thesis .
qed

lemma decode_objectToSearchParams:
  "distinct (map fst obj) \<Longrightarrow>
     Object_fromEntries (objectToSearchParams obj) k =
       (case map_of obj k of Some (Some v) \<Rightarrow> Some (qvalue_toString v) | _ \<Rightarrow> None)"
  by (simp add: Object_fromEntries_distinct objectToSearchParams_distinct
      map_of_objectToSearchParams)

lemma filter_objectToSearchParams:
  "distinct (map fst obj) \<Longrightarrow>
     filter (\<lambda>kv. fst kv = k) (objectToSearchParams obj) =
       (case map_of obj k of Some (Some v) \<Rightarrow> [(k, qvalue_toString v)] | _ \<Rightarrow> [])"
  by (simp add: filter_key_distinct objectToSearchParams_distinct map_of_objectToSearchParams
      split: option.splits)

lemma getAuthURL_object_lookup:
  "map_of (getAuthURL_object this scopes opts) k =
     (case map_of (rev opts) k of
        Some v \<Rightarrow> Some v
      | None \<Rightarrow>
          if k = ''response_type'' then Some (Some (Str ''code''))
          else if k = ''scope'' then Some (map_option (\<lambda>xs. Str (join '' '' xs)) scopes)
          else if k = ''client_id'' then Some (Some (Str (Creds.client_id (creds this))))
          else None)"
  by (simp add: getAuthURL_object_def map_of_object_literal map_add_def split: option.splits)

lemma getRedirectURL_object_lookup:
  "map_of (getRedirectURL_object scopes opts) k =
     (case map_of (rev opts) k of
        Some v \<Rightarrow> Some v
      | None \<Rightarrow>
          if k = ''response_type'' then Some (Some (Str ''token''))
          else if k = ''scope'' then Some (map_option (\<lambda>xs. Str (join '' '' xs)) scopes)
          else None)"
  by (simp add: getRedirectURL_object_def map_of_object_literal map_add_def split: option.splits)

lemma getAuthURL_object_distinct: "distinct (map fst (getAuthURL_object this scopes opts))"
  by (simp only: getAuthURL_object_def distinct_object_literal)

lemma getRedirectURL_object_distinct: "distinct (map fst (getRedirectURL_object scopes opts))"
  by (simp only: getRedirectURL_object_def distinct_object_literal)

lemma getAuthURL_params:
  "URLSearchParams_new (search (getAuthURL SPOTIFY_AUTH this scopes opts)) =
     objectToSearchParams (getAuthURL_object this scopes opts)"
  by (simp only: getAuthURL_def toQueryString_def URLSearchParams_new_search)

lemma getRedirectURL_params:
  "URLSearchParams_new (search (getRedirectURL AUTHORIZE_URL scopes opts)) =
     objectToSearchParams (getRedirectURL_object scopes opts)"
  by (simp only: getRedirectURL_def URLSearchParams_new_search)

lemma getAuthURL_decoded:
  "QueryCodec_decode (search (getAuthURL SPOTIFY_AUTH this scopes opts)) k =
     (case map_of (getAuthURL_object this scopes opts) k of
        Some (Some v) \<Rightarrow> Some (qvalue_toString v) | _ \<Rightarrow> None)"
  by (simp only: getAuthURL_params decode_objectToSearchParams getAuthURL_object_distinct)

lemma getRedirectURL_decoded:
  "QueryCodec_decode (search (getRedirectURL AUTHORIZE_URL scopes opts)) k =
     (case map_of (getRedirectURL_object scopes opts) k of
        Some (Some v) \<Rightarrow> Some (qvalue_toString v) | _ \<Rightarrow> None)"
  by (simp only: getRedirectURL_params decode_objectToSearchParams getRedirectURL_object_distinct)

lemma map_of_rev_absent: "k \<notin> fst ` set xs \<Longrightarrow> map_of (rev xs) k = None"
  by (simp add: map_of_eq_None_iff)

subsection \<open>The response type\<close>

text \<open>
  Claim C6 as stated fails for options that have a \<^verbatim>\<open>response_type\<close> property of their
  own. The example options have the declared properties with their declared types and one
  property more, which the type check lets pass for an object that is not a fresh literal.
  The spread of the options comes last in the literal of the builder and replaces the
  response type of the flow: the URL of the authorization code flow asks for a token and
  the URL of the implicit flow for a code.
\<close>

theorem response_type_override_counterexample:
  "GetAuthURLOpts_typed example_auth_opts_response_type \<and>
   search (getAuthURL ''https://accounts.spotify.com/'' (AuthCode_new example_creds) None
       example_auth_opts_response_type) =
     ''?response_type=token&client_id=id&redirect_uri=http%3A%2F%2Flocalhost%2Fcb'' \<and>
   QueryCodec_decode
       (search (getAuthURL ''https://accounts.spotify.com/'' (AuthCode_new example_creds) None
          example_auth_opts_response_type)) ''response_type'' = Some ''token'' \<and>
   GetRedirectURLOpts_typed example_redirect_opts_response_type \<and>
   search (getRedirectURL ''https://accounts.spotify.com/authorize'' None
       example_redirect_opts_response_type) =
     ''?response_type=code&client_id=id&redirect_uri=http%3A%2F%2Flocalhost%2Fcb'' \<and>
   QueryCodec_decode
       (search (getRedirectURL ''https://accounts.spotify.com/authorize'' None
          example_redirect_opts_response_type)) ''response_type'' = Some ''code''"
proof -
  have ta: "GetAuthURLOpts_typed example_auth_opts_response_type"
    by (simp add: GetAuthURLOpts_typed_def example_auth_opts_response_type_def
        required_string_def optional_string_def optional_boolean_def)
  have tr: "GetRedirectURLOpts_typed example_redirect_opts_response_type"
    by (simp add: GetRedirectURLOpts_typed_def example_redirect_opts_response_type_def
        required_string_def optional_string_def optional_boolean_def)
  have a: "search (getAuthURL ''https://accounts.spotify.com/'' (AuthCode_new example_creds) None
       example_auth_opts_response_type) =
     ''?response_type=token&client_id=id&redirect_uri=http%3A%2F%2Flocalhost%2Fcb''"
    by code_simp
  have r: "search (getRedirectURL ''https://accounts.spotify.com/authorize'' None
       example_redirect_opts_response_type) =
     ''?response_type=code&client_id=id&redirect_uri=http%3A%2F%2Flocalhost%2Fcb''"
    by code_simp
  have da: "QueryCodec_decode
      ''?response_type=token&client_id=id&redirect_uri=http%3A%2F%2Flocalhost%2Fcb''
      ''response_type'' = Some ''token''"
    by code_simp
  have dr: "QueryCodec_decode
      ''?response_type=code&client_id=id&redirect_uri=http%3A%2F%2Flocalhost%2Fcb''
      ''response_type'' = Some ''code''"
    by code_simp
  show ?thesis
    unfolding a r using ta tr da dr by simp
qed

text \<open>
  Claim C6, amended. For every authorization request whose options have no
  \<^verbatim>\<open>response_type\<close> property of their own, as all options with the declared properties
  only, the object that the builder encodes has the property \<^verbatim>\<open>response_type\<close> once, with
  the literal of the flow, \<^verbatim>\<open>code\<close> for \<open>getAuthURL\<close> and \<^verbatim>\<open>token\<close> for
  \<open>getRedirectURL\<close>, and so has the query string of the URL that the builder returns. For
  all options (an object has no key twice) the response type of the URL is the literal of
  the flow when the options have no such property, the string form of their value when
  they have one, and missing when theirs is undefined. The other fields of the request are
  merged into the query string: every property of the options with a name that the
  literal does not use is there in its string form, so the redirect URI, the state when
  there is one and \<^verbatim>\<open>show_dialog\<close> as \<^verbatim>\<open>true\<close> or \<^verbatim>\<open>false\<close> when it is given, and the
  client id, which the authorization code flow takes from the credentials when the
  options have none (the scopes are the matter of claim C8).
\<close>

theorem response_type_forced:
  "(''response_type'' \<notin> fst ` set opts \<longrightarrow>
      filter (\<lambda>kv. fst kv = ''response_type'') (getAuthURL_object this scopes opts) =
        [(''response_type'', Some (Str ''code''))] \<and>
      filter (\<lambda>kv. fst kv = ''response_type'')
          (URLSearchParams_new (search (getAuthURL SPOTIFY_AUTH this scopes opts))) =
        [(''response_type'', ''code'')] \<and>
      QueryCodec_decode (search (getAuthURL SPOTIFY_AUTH this scopes opts)) ''response_type'' =
        Some ''code'') \<and>
   (''response_type'' \<notin> fst ` set ropts \<longrightarrow>
      filter (\<lambda>kv. fst kv = ''response_type'') (getRedirectURL_object rscopes ropts) =
        [(''response_type'', Some (Str ''token''))] \<and>
      filter (\<lambda>kv. fst kv = ''response_type'')
          (URLSearchParams_new (search (getRedirectURL AUTHORIZE_URL rscopes ropts))) =
        [(''response_type'', ''token'')] \<and>
      QueryCodec_decode (search (getRedirectURL AUTHORIZE_URL rscopes ropts)) ''response_type'' =
        Some ''token'') \<and>
   (distinct (map fst opts) \<longrightarrow>
      QueryCodec_decode (search (getAuthURL SPOTIFY_AUTH this scopes opts)) ''response_type'' =
        (case map_of opts ''response_type'' of
           None \<Rightarrow> Some ''code''
         | Some None \<Rightarrow> None
         | Some (Some v) \<Rightarrow> Some (qvalue_toString v)) \<and>
      (''client_id'' \<notin> fst ` set opts \<longrightarrow>
         QueryCodec_decode (search (getAuthURL SPOTIFY_AUTH this scopes opts)) ''client_id'' =
           Some (Creds.client_id (creds this))) \<and>
      (\<forall>k. k \<notin> {''response_type'', ''scope'', ''client_id''} \<longrightarrow>
         QueryCodec_decode (search (getAuthURL SPOTIFY_AUTH this scopes opts)) k =
           (case map_of opts k of Some (Some v) \<Rightarrow> Some (qvalue_toString v) | _ \<Rightarrow> None)) \<and>
      (\<forall>s. map_of opts ''redirect_uri'' = Some (Some (Str s)) \<longrightarrow>
         QueryCodec_decode (search (getAuthURL SPOTIFY_AUTH this scopes opts)) ''redirect_uri'' =
           Some s) \<and>
      (\<forall>s. map_of opts ''state'' = Some (Some (Str s)) \<longrightarrow>
         QueryCodec_decode (search (getAuthURL SPOTIFY_AUTH this scopes opts)) ''state'' = Some s) \<and>
      (\<forall>b. map_of opts ''show_dialog'' = Some (Some (Bool b)) \<longrightarrow>
         QueryCodec_decode (search (getAuthURL SPOTIFY_AUTH this scopes opts)) ''show_dialog'' =
           Some (if b then ''true'' else ''false''))) \<and>
   (distinct (map fst ropts) \<longrightarrow>
      QueryCodec_decode (search (getRedirectURL AUTHORIZE_URL rscopes ropts)) ''response_type'' =
        (case map_of ropts ''response_type'' of
           None \<Rightarrow> Some ''token''
         | Some None \<Rightarrow> None
         | Some (Some v) \<Rightarrow> Some (qvalue_toString v)) \<and>
      (\<forall>k. k \<notin> {''response_type'', ''scope''} \<longrightarrow>
         QueryCodec_decode (search (getRedirectURL AUTHORIZE_URL rscopes ropts)) k =
           (case map_of ropts k of Some (Some v) \<Rightarrow> Some (qvalue_toString v) | _ \<Rightarrow> None)) \<and>
      (\<forall>s. map_of ropts ''client_id'' = Some (Some (Str s)) \<longrightarrow>
         QueryCodec_decode (search (getRedirectURL AUTHORIZE_URL rscopes ropts)) ''client_id'' =
           Some s) \<and>
      (\<forall>s. map_of ropts ''redirect_uri'' = Some (Some (Str s)) \<longrightarrow>
         QueryCodec_decode (search (getRedirectURL AUTHORIZE_URL rscopes ropts)) ''redirect_uri'' =
           Some s) \<and>
      (\<forall>s. map_of ropts ''state'' = Some (Some (Str s)) \<longrightarrow>
         QueryCodec_decode (search (getRedirectURL AUTHORIZE_URL rscopes ropts)) ''state'' =
           Some s) \<and>
      (\<forall>b. map_of ropts ''show_dialog'' = Some (Some (Bool b)) \<longrightarrow>
         QueryCodec_decode (search (getRedirectURL AUTHORIZE_URL rscopes ropts)) ''show_dialog'' =
           Some (if b then ''true'' else ''false'')))"
proof (intro conjI impI)
  assume n: "''response_type'' \<notin> fst ` set opts"
  have l: "map_of (getAuthURL_object this scopes opts) ''response_type'' =
      Some (Some (Str ''code''))"
    by (simp add: getAuthURL_object_lookup map_of_rev_absent [OF n])
  show "filter (\<lambda>kv. fst kv = ''response_type'') (getAuthURL_object this scopes opts) =
      [(''response_type'', Some (Str ''code''))]"
    by (simp add: filter_key_distinct getAuthURL_object_distinct l)
  show "filter (\<lambda>kv. fst kv = ''response_type'')
        (URLSearchParams_new (search (getAuthURL SPOTIFY_AUTH this scopes opts))) =
      [(''response_type'', ''code'')]"
    by (simp add: getAuthURL_params filter_objectToSearchParams getAuthURL_object_distinct l
        qvalue_toString_def)
  show "QueryCodec_decode (search (getAuthURL SPOTIFY_AUTH this scopes opts)) ''response_type'' =
      Some ''code''"
    by (simp add: getAuthURL_decoded l qvalue_toString_def)
next
  assume n: "''response_type'' \<notin> fst ` set ropts"
  have l: "map_of (getRedirectURL_object rscopes ropts) ''response_type'' =
      Some (Some (Str ''token''))"
    by (simp add: getRedirectURL_object_lookup map_of_rev_absent [OF n])
  show "filter (\<lambda>kv. fst kv = ''response_type'') (getRedirectURL_object rscopes ropts) =
      [(''response_type'', Some (Str ''token''))]"
    by (simp add: filter_key_distinct getRedirectURL_object_distinct l)
  show "filter (\<lambda>kv. fst kv = ''response_type'')
        (URLSearchParams_new (search (getRedirectURL AUTHORIZE_URL rscopes ropts))) =
      [(''response_type'', ''token'')]"
    by (simp add: getRedirectURL_params filter_objectToSearchParams
        getRedirectURL_object_distinct l qvalue_toString_def)
  show "QueryCodec_decode (search (getRedirectURL AUTHORIZE_URL rscopes ropts)) ''response_type'' =
      Some ''token''"
    by (simp add: getRedirectURL_decoded l qvalue_toString_def)
next
  assume d: "distinct (map fst opts)"
  have dec: "QueryCodec_decode (search (getAuthURL SPOTIFY_AUTH this scopes opts)) k =
      (case map_of opts k of
         Some v \<Rightarrow> map_option qvalue_toString v
       | None \<Rightarrow>
           if k = ''response_type'' then Some ''code''
           else if k = ''scope'' then map_option (join '' '') scopes
           else if k = ''client_id'' then Some (Creds.client_id (creds this))
           else None)" for k
    by (simp add: getAuthURL_decoded getAuthURL_object_lookup map_of_rev_distinct [OF d]
        qvalue_toString_def split: option.splits)
  show "QueryCodec_decode (search (getAuthURL SPOTIFY_AUTH this scopes opts)) ''response_type'' =
      (case map_of opts ''response_type'' of
         None \<Rightarrow> Some ''code''
       | Some None \<Rightarrow> None
       | Some (Some v) \<Rightarrow> Some (qvalue_toString v))"
    by (simp add: dec split: option.splits)
  show "QueryCodec_decode (search (getAuthURL SPOTIFY_AUTH this scopes opts)) ''client_id'' =
      Some (Creds.client_id (creds this))"
    if "''client_id'' \<notin> fst ` set opts"
    using that by (simp add: dec map_of_eq_None_iff [THEN iffD2])
  show "\<forall>k. k \<notin> {''response_type'', ''scope'', ''client_id''} \<longrightarrow>
      QueryCodec_decode (search (getAuthURL SPOTIFY_AUTH this scopes opts)) k =
        (case map_of opts k of Some (Some v) \<Rightarrow> Some (qvalue_toString v) | _ \<Rightarrow> None)"
    by (simp add: dec split: option.splits)
  show "\<forall>s. map_of opts ''redirect_uri'' = Some (Some (Str s)) \<longrightarrow>
      QueryCodec_decode (search (getAuthURL SPOTIFY_AUTH this scopes opts)) ''redirect_uri'' =
        Some s"
    by (simp add: dec qvalue_toString_def)
  show "\<forall>s. map_of opts ''state'' = Some (Some (Str s)) \<longrightarrow>
      QueryCodec_decode (search (getAuthURL SPOTIFY_AUTH this scopes opts)) ''state'' = Some s"
    by (simp add: dec qvalue_toString_def)
  show "\<forall>b. map_of opts ''show_dialog'' = Some (Some (Bool b)) \<longrightarrow>
      QueryCodec_decode (search (getAuthURL SPOTIFY_AUTH this scopes opts)) ''show_dialog'' =
        Some (if b then ''true'' else ''false'')"
    by (simp add: dec qvalue_toString_def)
next
  assume d: "distinct (map fst ropts)"
  have dec: "QueryCodec_decode (search (getRedirectURL AUTHORIZE_URL rscopes ropts)) k =
      (case map_of ropts k of
         Some v \<Rightarrow> map_option qvalue_toString v
       | None \<Rightarrow>
           if k = ''response_type'' then Some ''token''
           else if k = ''scope'' then map_option (join '' '') rscopes
           else None)" for k
    by (simp add: getRedirectURL_decoded getRedirectURL_object_lookup
        map_of_rev_distinct [OF d] qvalue_toString_def split: option.splits)
  show "QueryCodec_decode (search (getRedirectURL AUTHORIZE_URL rscopes ropts)) ''response_type'' =
      (case map_of ropts ''response_type'' of
         None \<Rightarrow> Some ''token''
       | Some None \<Rightarrow> None
       | Some (Some v) \<Rightarrow> Some (qvalue_toString v))"
    by (simp add: dec split: option.splits)
  show "\<forall>k. k \<notin> {''response_type'', ''scope''} \<longrightarrow>
      QueryCodec_decode (search (getRedirectURL AUTHORIZE_URL rscopes ropts)) k =
        (case map_of ropts k of Some (Some v) \<Rightarrow> Some (qvalue_toString v) | _ \<Rightarrow> None)"
    by (simp add: dec split: option.splits)
  show "\<forall>s. map_of ropts ''client_id'' = Some (Some (Str s)) \<longrightarrow>
      QueryCodec_decode (search (getRedirectURL AUTHORIZE_URL rscopes ropts)) ''client_id'' =
        Some s"
    by (simp add: dec qvalue_toString_def)
  show "\<forall>s. map_of ropts ''redirect_uri'' = Some (Some (Str s)) \<longrightarrow>
      QueryCodec_decode (search (getRedirectURL AUTHORIZE_URL rscopes ropts)) ''redirect_uri'' =
        Some s"
    by (simp add: dec qvalue_toString_def)
  show "\<forall>s. map_of ropts ''state'' = Some (Some (Str s)) \<longrightarrow>
      QueryCodec_decode (search (getRedirectURL AUTHORIZE_URL rscopes ropts)) ''state'' =
        Some s"
    by (simp add: dec qvalue_toString_def)
  show "\<forall>b. map_of ropts ''show_dialog'' = Some (Some (Bool b)) \<longrightarrow>
      QueryCodec_decode (search (getRedirectURL AUTHORIZE_URL rscopes ropts)) ''show_dialog'' =
        Some (if b then ''true'' else ''false'')"
    by (simp add: dec qvalue_toString_def)
qed

text \<open>The two URLs for the example options, as text and decoded.\<close>

theorem response_type_forced_witness:
  "''response_type'' \<notin> fst ` set example_auth_opts \<and> distinct (map fst example_auth_opts) \<and>
   GetAuthURLOpts_typed example_auth_opts \<and>
   search (getAuthURL ''https://accounts.spotify.com/'' (AuthCode_new example_creds)
       (Some example_scopes) example_auth_opts) =
     ''?response_type=code&scope=user-read-email+user-read-email+streaming&client_id=id&redirect_uri=http%3A%2F%2Flocalhost%2Fcb&state=123abc'' \<and>
   QueryCodec_decode
       (search (getAuthURL ''https://accounts.spotify.com/'' (AuthCode_new example_creds)
          (Some example_scopes) example_auth_opts)) ''response_type'' = Some ''code'' \<and>
   QueryCodec_decode
       (search (getAuthURL ''https://accounts.spotify.com/'' (AuthCode_new example_creds)
          (Some example_scopes) example_auth_opts)) ''redirect_uri'' = Some ''http://localhost/cb'' \<and>
   ''response_type'' \<notin> fst ` set example_redirect_opts \<and>
   distinct (map fst example_redirect_opts) \<and>
   GetRedirectURLOpts_typed example_redirect_opts \<and>
   search (getRedirectURL ''https://accounts.spotify.com/authorize'' None example_redirect_opts) =
     ''?response_type=token&show_dialog=true&client_id=id&redirect_uri=http%3A%2F%2Flocalhost%2Fcb'' \<and>
   QueryCodec_decode
       (search (getRedirectURL ''https://accounts.spotify.com/authorize'' None
          example_redirect_opts)) ''response_type'' = Some ''token'' \<and>
   QueryCodec_decode
       (search (getRedirectURL ''https://accounts.spotify.com/authorize'' None
          example_redirect_opts)) ''show_dialog'' = Some ''true''"
proof -
  have a: "search (getAuthURL ''https://accounts.spotify.com/'' (AuthCode_new example_creds)
       (Some example_scopes) example_auth_opts) =
     ''?response_type=code&scope=user-read-email+user-read-email+streaming&client_id=id&redirect_uri=http%3A%2F%2Flocalhost%2Fcb&state=123abc''"
    by code_simp
  have r: "search (getRedirectURL ''https://accounts.spotify.com/authorize'' None
       example_redirect_opts) =
     ''?response_type=token&show_dialog=true&client_id=id&redirect_uri=http%3A%2F%2Flocalhost%2Fcb''"
    by code_simp
  have ta: "GetAuthURLOpts_typed example_auth_opts"
    by (simp add: GetAuthURLOpts_typed_def example_auth_opts_def
        required_string_def optional_string_def optional_boolean_def)
  have tr: "GetRedirectURLOpts_typed example_redirect_opts"
    by (simp add: GetRedirectURLOpts_typed_def example_redirect_opts_def
        required_string_def optional_string_def optional_boolean_def)
  have na: "''response_type'' \<notin> fst ` set example_auth_opts"
    by (simp add: example_auth_opts_def)
  have nr: "''response_type'' \<notin> fst ` set example_redirect_opts"
    by (simp add: example_redirect_opts_def)
  have da: "distinct (map fst example_auth_opts)"
    by (simp add: example_auth_opts_def)
  have dr: "distinct (map fst example_redirect_opts)"
    by (simp add: example_redirect_opts_def)
  have ma: "map_of example_auth_opts ''redirect_uri'' = Some (Some (Str ''http://localhost/cb''))"
    by (simp add: example_auth_opts_def)
  have mr: "map_of example_redirect_opts ''show_dialog'' = Some (Some (Bool True))"
    by (simp add: example_redirect_opts_def)
  note t = response_type_forced [where SPOTIFY_AUTH = "''https://accounts.spotify.com/''"
      and this = "AuthCode_new example_creds" and scopes = "Some example_scopes"
      and opts = example_auth_opts
      and AUTHORIZE_URL = "''https://accounts.spotify.com/authorize''"
      and rscopes = None and ropts = example_redirect_opts]
  have 1: "QueryCodec_decode
       (search (getAuthURL ''https://accounts.spotify.com/'' (AuthCode_new example_creds)
          (Some example_scopes) example_auth_opts)) ''response_type'' = Some ''code''"
    by (rule t [THEN conjunct1, THEN mp, OF na, THEN conjunct2, THEN conjunct2])
  have 2: "QueryCodec_decode
       (search (getAuthURL ''https://accounts.spotify.com/'' (AuthCode_new example_creds)
          (Some example_scopes) example_auth_opts)) ''redirect_uri'' = Some ''http://localhost/cb''"
    by (rule t [THEN conjunct2, THEN conjunct2, THEN conjunct1, THEN mp, OF da,
          THEN conjunct2, THEN conjunct2, THEN conjunct2, THEN conjunct1, THEN spec, THEN mp,
          OF ma])
  have 3: "QueryCodec_decode
       (search (getRedirectURL ''https://accounts.spotify.com/authorize'' None
          example_redirect_opts)) ''response_type'' = Some ''token''"
    by (rule t [THEN conjunct2, THEN conjunct1, THEN mp, OF nr, THEN conjunct2,
          THEN conjunct2])
  have 4: "QueryCodec_decode
       (search (getRedirectURL ''https://accounts.spotify.com/authorize'' None
          example_redirect_opts)) ''show_dialog'' = Some ''true''"
    using t [THEN conjunct2, THEN conjunct2, THEN conjunct2, THEN mp, OF dr,
          THEN conjunct2, THEN conjunct2, THEN conjunct2, THEN conjunct2, THEN conjunct2,
          THEN spec, THEN mp, OF mr]
    by simp
  show ?thesis
    using a r ta tr na nr da dr 1 2 3 4 by (intro conjI)
qed

subsection \<open>Encoding and decoding\<close>




subsection \<open>Scopes\<close>

text \<open>
  Claim C8 as stated fails for options that have a \<^verbatim>\<open>scope\<close> property of their own,
  beside the declared properties. The spread of the options replaces the \<^verbatim>\<open>scope\<close> of the
  builder's literal: with three scopes given, the URL has the \<^verbatim>\<open>scope\<close> of the options and
  not the scopes joined; with no scopes given, the URL has a \<^verbatim>\<open>scope\<close> parameter all the
  same.
\<close>

theorem scope_override_counterexample:
  "GetAuthURLOpts_typed example_auth_opts_scope \<and>
   join '' '' example_scopes = ''user-read-email user-read-email streaming'' \<and>
   search (getAuthURL ''https://accounts.spotify.com/'' (AuthCode_new example_creds)
       (Some example_scopes) example_auth_opts_scope) =
     ''?response_type=code&scope=user-read-private&client_id=id&redirect_uri=http%3A%2F%2Flocalhost%2Fcb'' \<and>
   QueryCodec_decode
       (search (getAuthURL ''https://accounts.spotify.com/'' (AuthCode_new example_creds)
          (Some example_scopes) example_auth_opts_scope)) ''scope'' = Some ''user-read-private'' \<and>
   GetRedirectURLOpts_typed example_redirect_opts_scope \<and>
   search (getRedirectURL ''https://accounts.spotify.com/authorize'' None
       example_redirect_opts_scope) =
     ''?response_type=token&scope=user-read-private&client_id=id&redirect_uri=http%3A%2F%2Flocalhost%2Fcb'' \<and>
   QueryCodec_decode
       (search (getRedirectURL ''https://accounts.spotify.com/authorize'' None
          example_redirect_opts_scope)) ''scope'' = Some ''user-read-private''"
proof -
  have ta: "GetAuthURLOpts_typed example_auth_opts_scope"
    by (simp add: GetAuthURLOpts_typed_def example_auth_opts_scope_def
        required_string_def optional_string_def optional_boolean_def)
  have tr: "GetRedirectURLOpts_typed example_redirect_opts_scope"
    by (simp add: GetRedirectURLOpts_typed_def example_redirect_opts_scope_def
        required_string_def optional_string_def optional_boolean_def)
  have j: "join '' '' example_scopes = ''user-read-email user-read-email streaming''"
    by (simp add: example_scopes_def)
  have a: "search (getAuthURL ''https://accounts.spotify.com/'' (AuthCode_new example_creds)
       (Some example_scopes) example_auth_opts_scope) =
     ''?response_type=code&scope=user-read-private&client_id=id&redirect_uri=http%3A%2F%2Flocalhost%2Fcb''"
    by code_simp
  have r: "search (getRedirectURL ''https://accounts.spotify.com/authorize'' None
       example_redirect_opts_scope) =
     ''?response_type=token&scope=user-read-private&client_id=id&redirect_uri=http%3A%2F%2Flocalhost%2Fcb''"
    by code_simp
  have da: "QueryCodec_decode
      ''?response_type=code&scope=user-read-private&client_id=id&redirect_uri=http%3A%2F%2Flocalhost%2Fcb''
      ''scope'' = Some ''user-read-private''"
    by code_simp
  have dr: "QueryCodec_decode
      ''?response_type=token&scope=user-read-private&client_id=id&redirect_uri=http%3A%2F%2Flocalhost%2Fcb''
      ''scope'' = Some ''user-read-private''"
    by code_simp
  show ?thesis
    unfolding a r using ta tr j da dr by simp
qed

text \<open>
  Claim C8, amended. For every list of scope identifiers given to a builder whose options
  have no \<^verbatim>\<open>scope\<close> property of their own, as all options with the declared properties
  only, the \<^verbatim>\<open>scope\<close> property of the object that the builder encodes, and the \<^verbatim>\<open>scope\<close>
  parameter of the URL, is the identifiers joined by single spaces; when no list is given,
  the property is undefined and the URL has no \<^verbatim>\<open>scope\<close> parameter at all. For all options
  (an object has no key twice) the \<^verbatim>\<open>scope\<close> parameter is the one of the options when they
  have such a property, missing when theirs is undefined. The joining keeps the order and
  the duplicates: splitting the joined string at the spaces gives the list back, for a
  non-empty list of identifiers without spaces.
\<close>

theorem scope_joined:
  "(''scope'' \<notin> fst ` set opts \<longrightarrow>
      map_of (getAuthURL_object this scopes opts) ''scope'' =
        Some (map_option (\<lambda>xs. Str (join '' '' xs)) scopes) \<and>
      QueryCodec_decode (search (getAuthURL SPOTIFY_AUTH this scopes opts)) ''scope'' =
        map_option (join '' '') scopes \<and>
      (''scope'' \<in> fst ` set (URLSearchParams_new (search (getAuthURL SPOTIFY_AUTH this scopes opts)))) =
        (scopes \<noteq> None)) \<and>
   (''scope'' \<notin> fst ` set ropts \<longrightarrow>
      map_of (getRedirectURL_object rscopes ropts) ''scope'' =
        Some (map_option (\<lambda>xs. Str (join '' '' xs)) rscopes) \<and>
      QueryCodec_decode (search (getRedirectURL AUTHORIZE_URL rscopes ropts)) ''scope'' =
        map_option (join '' '') rscopes \<and>
      (''scope'' \<in> fst ` set (URLSearchParams_new (search (getRedirectURL AUTHORIZE_URL rscopes ropts)))) =
        (rscopes \<noteq> None)) \<and>
   (distinct (map fst opts) \<longrightarrow>
      QueryCodec_decode (search (getAuthURL SPOTIFY_AUTH this scopes opts)) ''scope'' =
        (case map_of opts ''scope'' of
           None \<Rightarrow> map_option (join '' '') scopes
         | Some None \<Rightarrow> None
         | Some (Some v) \<Rightarrow> Some (qvalue_toString v))) \<and>
   (distinct (map fst ropts) \<longrightarrow>
      QueryCodec_decode (search (getRedirectURL AUTHORIZE_URL rscopes ropts)) ''scope'' =
        (case map_of ropts ''scope'' of
           None \<Rightarrow> map_option (join '' '') rscopes
         | Some None \<Rightarrow> None
         | Some (Some v) \<Rightarrow> Some (qvalue_toString v))) \<and>
   (xs \<noteq> [] \<and> list_all (\<lambda>x. CHR '' '' \<notin> set x) xs \<longrightarrow>
      split_on (CHR '' '') (join '' '' xs) = xs)"
proof (intro conjI impI)
  assume n: "''scope'' \<notin> fst ` set opts"
  show l: "map_of (getAuthURL_object this scopes opts) ''scope'' =
      Some (map_option (\<lambda>xs. Str (join '' '' xs)) scopes)"
    by (simp add: getAuthURL_object_lookup map_of_rev_absent [OF n])
  show "QueryCodec_decode (search (getAuthURL SPOTIFY_AUTH this scopes opts)) ''scope'' =
      map_option (join '' '') scopes"
    by (simp add: getAuthURL_decoded l qvalue_toString_def split: option.splits)
  show "(''scope'' \<in> fst ` set (URLSearchParams_new (search (getAuthURL SPOTIFY_AUTH this scopes opts)))) =
      (scopes \<noteq> None)"
    by (simp only: getAuthURL_params key_of_objectToSearchParams getAuthURL_object_distinct l)
      (cases scopes; simp)
next
  assume n: "''scope'' \<notin> fst ` set ropts"
  show l: "map_of (getRedirectURL_object rscopes ropts) ''scope'' =
      Some (map_option (\<lambda>xs. Str (join '' '' xs)) rscopes)"
    by (simp add: getRedirectURL_object_lookup map_of_rev_absent [OF n])
  show "QueryCodec_decode (search (getRedirectURL AUTHORIZE_URL rscopes ropts)) ''scope'' =
      map_option (join '' '') rscopes"
    by (simp add: getRedirectURL_decoded l qvalue_toString_def split: option.splits)
  show "(''scope'' \<in> fst ` set (URLSearchParams_new (search (getRedirectURL AUTHORIZE_URL rscopes ropts)))) =
      (rscopes \<noteq> None)"
    by (simp only: getRedirectURL_params key_of_objectToSearchParams
        getRedirectURL_object_distinct l) (cases rscopes; simp)
next
  assume d: "distinct (map fst opts)"
  show "QueryCodec_decode (search (getAuthURL SPOTIFY_AUTH this scopes opts)) ''scope'' =
      (case map_of opts ''scope'' of
         None \<Rightarrow> map_option (join '' '') scopes
       | Some None \<Rightarrow> None
       | Some (Some v) \<Rightarrow> Some (qvalue_toString v))"
    by (simp add: getAuthURL_decoded getAuthURL_object_lookup map_of_rev_distinct [OF d]
        qvalue_toString_def split: option.splits)
next
  assume d: "distinct (map fst ropts)"
  show "QueryCodec_decode (search (getRedirectURL AUTHORIZE_URL rscopes ropts)) ''scope'' =
      (case map_of ropts ''scope'' of
         None \<Rightarrow> map_option (join '' '') rscopes
       | Some None \<Rightarrow> None
       | Some (Some v) \<Rightarrow> Some (qvalue_toString v))"
    by (simp add: getRedirectURL_decoded getRedirectURL_object_lookup
        map_of_rev_distinct [OF d] qvalue_toString_def split: option.splits)
next
  assume "xs \<noteq> [] \<and> list_all (\<lambda>x. CHR '' '' \<notin> set x) xs"
  then show "split_on (CHR '' '') (join '' '' xs) = xs"
    using split_on_join [of xs "CHR '' ''"] by simp
qed

text \<open>
  Three scopes, one of them twice, for the authorization code flow; no scopes for the
  implicit flow.
\<close>

theorem scope_joined_witness:
  "''scope'' \<notin> fst ` set example_auth_opts \<and>
   QueryCodec_decode
       (search (getAuthURL ''https://accounts.spotify.com/'' (AuthCode_new example_creds)
          (Some example_scopes) example_auth_opts)) ''scope'' =
     Some ''user-read-email user-read-email streaming'' \<and>
   split_on (CHR '' '') ''user-read-email user-read-email streaming'' = example_scopes \<and>
   ''scope'' \<notin> fst ` set example_redirect_opts \<and>
   QueryCodec_decode
       (search (getRedirectURL ''https://accounts.spotify.com/authorize'' None
          example_redirect_opts)) ''scope'' = None \<and>
   ''scope'' \<notin> fst ` set
       (URLSearchParams_new
          (search (getRedirectURL ''https://accounts.spotify.com/authorize'' None
             example_redirect_opts))) \<and>
   search (getRedirectURL ''https://accounts.spotify.com/authorize'' None example_redirect_opts) =
     ''?response_type=token&show_dialog=true&client_id=id&redirect_uri=http%3A%2F%2Flocalhost%2Fcb''"
proof -
  have j: "join '' '' example_scopes = ''user-read-email user-read-email streaming''"
    by (simp add: example_scopes_def)
  have h: "example_scopes \<noteq> [] \<and> list_all (\<lambda>x. CHR '' '' \<notin> set x) example_scopes"
    by (simp add: example_scopes_def)
  have na: "''scope'' \<notin> fst ` set example_auth_opts"
    by (simp add: example_auth_opts_def)
  have nr: "''scope'' \<notin> fst ` set example_redirect_opts"
    by (simp add: example_redirect_opts_def)
  have u: "search (getRedirectURL ''https://accounts.spotify.com/authorize'' None
       example_redirect_opts) =
     ''?response_type=token&show_dialog=true&client_id=id&redirect_uri=http%3A%2F%2Flocalhost%2Fcb''"
    by code_simp
  note t = scope_joined [where SPOTIFY_AUTH = "''https://accounts.spotify.com/''"
      and this = "AuthCode_new example_creds" and scopes = "Some example_scopes"
      and opts = example_auth_opts
      and AUTHORIZE_URL = "''https://accounts.spotify.com/authorize''"
      and rscopes = None and ropts = example_redirect_opts and xs = example_scopes]
  have 1: "QueryCodec_decode
       (search (getAuthURL ''https://accounts.spotify.com/'' (AuthCode_new example_creds)
          (Some example_scopes) example_auth_opts)) ''scope'' =
     Some ''user-read-email user-read-email streaming''"
    using t [THEN conjunct1, THEN mp, OF na, THEN conjunct2, THEN conjunct1]
    by (simp only: j option.map)
  have 2: "split_on (CHR '' '') ''user-read-email user-read-email streaming'' = example_scopes"
    using t [THEN conjunct2, THEN conjunct2, THEN conjunct2, THEN conjunct2, THEN mp, OF h]
    by (simp only: j)
  have 3: "QueryCodec_decode
       (search (getRedirectURL ''https://accounts.spotify.com/authorize'' None
          example_redirect_opts)) ''scope'' = None"
    using t [THEN conjunct2, THEN conjunct1, THEN mp, OF nr, THEN conjunct2, THEN conjunct1]
    by (simp only: option.map)
  have 4: "''scope'' \<notin> fst ` set
       (URLSearchParams_new
          (search (getRedirectURL ''https://accounts.spotify.com/authorize'' None
             example_redirect_opts)))"
    using t [THEN conjunct2, THEN conjunct1, THEN mp, OF nr, THEN conjunct2, THEN conjunct2]
    by (simp only: not_False_eq_True simp_thms)
  show ?thesis
    using na nr u 1 2 3 4 by (intro conjI)
qed

section \<open>The token endpoint\<close>

lemma URL_set_search_toQueryString:
  "objectToSearchParams obj \<noteq> [] \<Longrightarrow>
     URL_set_search (URL_new e) (toQueryString obj) =
       \<lparr>endpoint = e, search = CHR ''?'' # toQueryString obj\<rparr>"
  by (simp add: toQueryString_def URL_set_search_toString URL_new_def)

lemma getGrantData_run:
  "getGrantData SPOTIFY_AUTH srv this redirect code log =
     (let req = \<lparr>http_method = ''POST'',
                 url = \<lparr>endpoint = SPOTIFY_AUTH @ ''api/token'',
                        search = CHR ''?'' # toQueryString
                          [(''code'', Some (Str code)), (''redirect_uri'', Some (Str redirect)),
                           (''grant_type'', Some (Str ''authorization_code''))]\<rparr>,
                 headers = [(''Authorization'', basicAuthHeader this),
                            (''Content-Type'', URL_ENCODED)],
                 body = None\<rparr>
      in ((case srv log req of
             None \<Rightarrow> Inl FetchRejected
           | Some res \<Rightarrow>
               if ok res then (case json res of None \<Rightarrow> Inl JsonRejected | Some j \<Rightarrow> Inr j)
               else Inl (SpotifyAuthError (json res) (status res))),
          log @ [req]))"
proof -
  have "objectToSearchParams
      [(''code'', Some (Str code)), (''redirect_uri'', Some (Str redirect)),
       (''grant_type'', Some (Str ''authorization_code''))] \<noteq> []"
    by (simp add: objectToSearchParams_def)
  then show ?thesis
    by (simp add: getGrantData_def fetch_def URL_set_search_toQueryString Let_def
        SpotifyAuthError_create_def split: option.splits)
qed

lemma refresh_run:
  "refresh SPOTIFY_AUTH srv this token log =
     (let req = \<lparr>http_method = ''POST'',
                 url = \<lparr>endpoint = SPOTIFY_AUTH @ ''api/token'',
                        search = CHR ''?'' # toQueryString
                          [(''refresh_token'', Some (Str token)),
                           (''grant_type'', Some (Str ''refresh_token''))]\<rparr>,
                 headers = [(''Authorization'', basicAuthHeader this),
                            (''Content-Type'', URL_ENCODED)],
                 body = None\<rparr>
      in ((case srv log req of
             None \<Rightarrow> Inl FetchRejected
           | Some res \<Rightarrow>
               if ok res then (case json res of None \<Rightarrow> Inl JsonRejected | Some j \<Rightarrow> Inr j)
               else Inl (SpotifyAuthError (json res) (status res))),
          log @ [req]))"
proof -
  have "objectToSearchParams
      [(''refresh_token'', Some (Str token)), (''grant_type'', Some (Str ''refresh_token''))] \<noteq> []"
    by (simp add: objectToSearchParams_def)
  then show ?thesis
    by (simp add: refresh_def fetch_def URL_set_search_toQueryString Let_def
        SpotifyAuthError_create_def split: option.splits)
qed

lemma search_params_toQueryString:
  "URLSearchParams_new (CHR ''?'' # toQueryString obj) = objectToSearchParams obj"
  by (simp add: toQueryString_def URLSearchParams_new_question)

subsection \<open>The exchange of the authorization code\<close>

text \<open>
  Claim C1 as stated fails: the request that \<open>getGrantData\<close> issues has no body. The
  parameters are in the query string of the request URL.
\<close>

theorem getGrantData_body_counterexample:
  "map body (snd (getGrantData ''https://accounts.spotify.com/'' server_granting
       (AuthCode_new example_creds) ''http://localhost/cb'' ''c0de'' [])) = [None] \<and>
   map search (map url (snd (getGrantData ''https://accounts.spotify.com/'' server_granting
       (AuthCode_new example_creds) ''http://localhost/cb'' ''c0de'' []))) =
     [''?code=c0de&redirect_uri=http%3A%2F%2Flocalhost%2Fcb&grant_type=authorization_code'']"
proof -
  have "toQueryString [(''code'', Some (Str ''c0de'')),
      (''redirect_uri'', Some (Str ''http://localhost/cb'')),
      (''grant_type'', Some (Str ''authorization_code''))] =
    ''code=c0de&redirect_uri=http%3A%2F%2Flocalhost%2Fcb&grant_type=authorization_code''"
    by code_simp
  then show ?thesis
    by (simp add: getGrantData_run Let_def)
qed

text \<open>
  Claim C1, amended. For every code and redirect URI, \<open>getGrantData\<close> issues exactly one
  request, a \<^verbatim>\<open>POST\<close> to the token endpoint, with no body: the parameters
  \<^verbatim>\<open>code\<close>, \<^verbatim>\<open>redirect_uri\<close> and \<^verbatim>\<open>grant_type=authorization_code\<close> are url-encoded in
  the query string of the request URL. The header \<^verbatim>\<open>Authorization\<close> is the Basic-auth
  value of the credentials and \<^verbatim>\<open>Content-Type\<close> is
  \<^verbatim>\<open>application/x-www-form-urlencoded\<close>. On an HTTP success status it returns the value
  parsed from the JSON of the response.
\<close>

theorem getGrantData_request:
  "(let this = AuthCode_new c;
        req = \<lparr>http_method = ''POST'',
                url = \<lparr>endpoint = SPOTIFY_AUTH @ ''api/token'',
                       search = CHR ''?'' # toQueryString
                         [(''code'', Some (Str code)), (''redirect_uri'', Some (Str redirect)),
                          (''grant_type'', Some (Str ''authorization_code''))]\<rparr>,
                headers =
                  [(''Authorization'',
                    ''Basic '' @ base64 (Creds.client_id c @ '':'' @ Creds.client_secret c)),
                   (''Content-Type'', ''application/x-www-form-urlencoded'')],
                body = None\<rparr>
    in snd (getGrantData SPOTIFY_AUTH srv this redirect code log) = log @ [req] \<and>
       URLSearchParams_new (search (url req)) =
         [(''code'', code), (''redirect_uri'', redirect), (''grant_type'', ''authorization_code'')] \<and>
       (\<forall>res j. srv log req = Some res \<and> ok res \<and> json res = Some j \<longrightarrow>
          fst (getGrantData SPOTIFY_AUTH srv this redirect code log) = Inr j))"
  by (simp add: getGrantData_run Let_def AuthCode_new_def getBasicAuthHeader_def URL_ENCODED_def
      search_params_toQueryString objectToSearchParams_def qvalue_toString_def)

text \<open>The exchange against the granting endpoint, from an empty log.\<close>

theorem getGrantData_request_witness:
  "server_granting [] \<lparr>http_method = ''POST'',
       url = \<lparr>endpoint = ''https://accounts.spotify.com/api/token'',
              search = ''?code=c0de&redirect_uri=http%3A%2F%2Flocalhost%2Fcb&grant_type=authorization_code''\<rparr>,
       headers = [(''Authorization'', ''Basic aWQ6c2VjcmV0''),
                  (''Content-Type'', ''application/x-www-form-urlencoded'')],
       body = None\<rparr> = Some \<lparr>status = 200, json = Some example_token_json\<rparr> \<and>
   ok \<lparr>status = 200, json = Some example_token_json\<rparr> \<and>
   getGrantData ''https://accounts.spotify.com/'' server_granting (AuthCode_new example_creds)
       ''http://localhost/cb'' ''c0de'' [] =
     (Inr example_token_json,
      [\<lparr>http_method = ''POST'',
        url = \<lparr>endpoint = ''https://accounts.spotify.com/api/token'',
               search = ''?code=c0de&redirect_uri=http%3A%2F%2Flocalhost%2Fcb&grant_type=authorization_code''\<rparr>,
        headers = [(''Authorization'', ''Basic aWQ6c2VjcmV0''),
                   (''Content-Type'', ''application/x-www-form-urlencoded'')],
        body = None\<rparr>])"
proof -
  have q: "toQueryString [(''code'', Some (Str ''c0de'')),
      (''redirect_uri'', Some (Str ''http://localhost/cb'')),
      (''grant_type'', Some (Str ''authorization_code''))] =
    ''code=c0de&redirect_uri=http%3A%2F%2Flocalhost%2Fcb&grant_type=authorization_code''"
    by code_simp
  have b: "base64 (Creds.client_id example_creds @ '':'' @ Creds.client_secret example_creds) =
      ''aWQ6c2VjcmV0''"
    by code_simp
  have o: "ok \<lparr>status = 200, json = Some example_token_json\<rparr>"
    by (simp add: ok_def)
  show ?thesis
    using getGrantData_request [where SPOTIFY_AUTH = "''https://accounts.spotify.com/''"
        and c = example_creds and code = "''c0de''" and redirect = "''http://localhost/cb''"
        and srv = server_granting and log = "[]"] o
    unfolding Let_def q b
    by (simp add: server_granting_def prod_eq_iff)
qed


subsection \<open>Failures of the token endpoint operations\<close>

text \<open>
  Claim C2 as stated fails for a response with a success status whose body is not JSON:
  \<^verbatim>\<open>res.json()\<close> rejects, and the exchange and the refresh fail although the status is
  a success.
\<close>

theorem token_endpoint_not_json_counterexample:
  "ok \<lparr>status = 200, json = None\<rparr> \<and>
   fst (getGrantData ''https://accounts.spotify.com/'' server_not_json
       (AuthCode_new example_creds) ''http://localhost/cb'' ''c0de'' []) = Inl JsonRejected \<and>
   fst (refresh ''https://accounts.spotify.com/'' server_not_json
       (AuthCode_new example_creds) ''NgAagA'' []) = Inl JsonRejected"
  by (simp add: getGrantData_run refresh_run Let_def server_not_json_def ok_def)

text \<open>
  Claim C2, amended. For every response of the token endpoint whose body is JSON, the
  exchange and the refresh fail if and only if the HTTP status is not a success (200 to
  299); on failure they throw the auth error with the parsed body and the HTTP status
  code, and on success they return the parsed body, never an error.
\<close>

theorem token_endpoint_failure:
  "(srv log (last (snd (getGrantData SPOTIFY_AUTH srv this redirect code log))) = Some res \<and>
    json res = Some j \<longrightarrow>
      fst (getGrantData SPOTIFY_AUTH srv this redirect code log) =
        (if 200 \<le> status res \<and> status res \<le> 299 then Inr j
         else Inl (SpotifyAuthError (Some j) (status res))) \<and>
      (\<exists>e. fst (getGrantData SPOTIFY_AUTH srv this redirect code log) = Inl e) = (\<not> ok res)) \<and>
   (srv log (last (snd (refresh SPOTIFY_AUTH srv this token log))) = Some res \<and>
    json res = Some j \<longrightarrow>
      fst (refresh SPOTIFY_AUTH srv this token log) =
        (if 200 \<le> status res \<and> status res \<le> 299 then Inr j
         else Inl (SpotifyAuthError (Some j) (status res))) \<and>
      (\<exists>e. fst (refresh SPOTIFY_AUTH srv this token log) = Inl e) = (\<not> ok res))"
  by (auto simp: getGrantData_run refresh_run Let_def ok_def)

text \<open>
  The spec's denied exchange (status 400, \<^verbatim>\<open>invalid_grant\<close>) and the granted one, for both
  operations.
\<close>

theorem token_endpoint_failure_witness:
  "fst (getGrantData ''https://accounts.spotify.com/'' server_denying
       (AuthCode_new example_creds) ''http://localhost/cb'' ''c0de'' []) =
     Inl (SpotifyAuthError (Some (JObject [(''error'', JString ''invalid_grant'')])) 400) \<and>
   fst (refresh ''https://accounts.spotify.com/'' server_denying
       (AuthCode_new example_creds) ''NgAagA'' []) =
     Inl (SpotifyAuthError (Some (JObject [(''error'', JString ''invalid_grant'')])) 400) \<and>
   fst (getGrantData ''https://accounts.spotify.com/'' server_granting
       (AuthCode_new example_creds) ''http://localhost/cb'' ''c0de'' []) = Inr example_token_json \<and>
   fst (refresh ''https://accounts.spotify.com/'' server_granting
       (AuthCode_new example_creds) ''NgAagA'' []) = Inr example_token_json"
proof -
  let ?den = "\<lparr>status = 400, json = Some (JObject [(''error'', JString ''invalid_grant'')])\<rparr>"
  let ?gra = "\<lparr>status = 200, json = Some example_token_json\<rparr>"
  have d: "server_denying l r = Some ?den" for l r
    by (simp add: server_denying_def)
  have g: "server_granting l r = Some ?gra" for l r
    by (simp add: server_granting_def)
  show ?thesis
    using
      token_endpoint_failure [where srv = server_denying and res = ?den
        and j = "JObject [(''error'', JString ''invalid_grant'')]"
        and SPOTIFY_AUTH = "''https://accounts.spotify.com/''"
        and this = "AuthCode_new example_creds" and redirect = "''http://localhost/cb''"
        and code = "''c0de''" and token = "''NgAagA''" and log = "[]"]
      token_endpoint_failure [where srv = server_granting and res = ?gra
        and j = example_token_json
        and SPOTIFY_AUTH = "''https://accounts.spotify.com/''"
        and this = "AuthCode_new example_creds" and redirect = "''http://localhost/cb''"
        and code = "''c0de''" and token = "''NgAagA''" and log = "[]"]
    by (simp add: d g)
qed

subsection \<open>The refresher of a provider\<close>

lemma invocations_append:
  "(\<And>w. snd (f w) = w @ [x]) \<Longrightarrow> invocations f n w = w @ replicate n x"
proof (induction n arbitrary: w)
  case 0
  show ?case by simp
next
  case (Suc n)
  have "invocations f (Suc n) w = invocations f n (w @ [x])"
    using Suc.prems by simp
  also have "\<dots> = (w @ [x]) @ replicate n x"
    using Suc.prems by (rule Suc.IH)
  finally show ?case by (simp add: replicate_app_Cons_same)
qed

text \<open>
  Claim C10 as stated fails for options that have a \<^verbatim>\<open>refresher\<close> property of their own,
  which the declared type of the options leaves out and the type check lets pass for an
  object that is not a fresh literal. The spread of the options replaces the closure: the
  provider is constructed with the refresher of the options, and invoking that one sends
  no request with the refresh token, where the closure sends one. With an undefined
  \<^verbatim>\<open>refresher\<close> property the provider is constructed with no refresher at all.
\<close>

theorem createAuthProvider_own_refresher_counterexample:
  "AuthCode_createAuthProvider (\<lambda>p. p) ''https://accounts.spotify.com/'' server_granting
       (AuthCode_new example_creds) ''NgAagA'' (Some example_opts_refresher) =
     (Some example_own_refresher, Some ()) \<and>
   snd (example_own_refresher []) = [] \<and>
   invocations example_own_refresher 2 [] = [] \<and>
   map (\<lambda>req. search (url req))
       (snd (refresh ''https://accounts.spotify.com/'' server_granting
          (AuthCode_new example_creds) ''NgAagA'' [])) =
     [''?refresh_token=NgAagA&grant_type=refresh_token''] \<and>
   AuthCode_createAuthProvider (\<lambda>p. p) ''https://accounts.spotify.com/'' server_granting
       (AuthCode_new example_creds) ''NgAagA'' (Some \<lparr>own_refresher = Some None, others = ()\<rparr>) =
     (None, Some ())"
proof -
  have q: "toQueryString [(''refresh_token'', Some (Str ''NgAagA'')),
      (''grant_type'', Some (Str ''refresh_token''))] =
    ''refresh_token=NgAagA&grant_type=refresh_token''"
    by code_simp
  have two: "invocations example_own_refresher 2 [] = []"
    by (simp add: numeral_2_eq_2 example_own_refresher_def)
  show ?thesis
    using two
    by (simp add: AuthCode_createAuthProvider_def example_opts_refresher_def
        example_own_refresher_def refresh_run Let_def q)
qed

text \<open>
  Claim C10, amended. When no options are given, or options that have no \<^verbatim>\<open>refresher\<close>
  property of their own, the provider that \<open>AuthCode_createAuthProvider\<close> creates is built
  from the refresher \<^verbatim>\<open>() => this.refresh(refresh_token)\<close> and the other options, whatever
  the general constructor does with them; options with such a property give its value
  instead. Every invocation of the closure, in every state of the log and whatever the
  endpoint has answered before, issues the same request: the refresh token given at
  creation and the Basic-auth value of the credentials given to the constructor of the
  class. So do \<open>n\<close> invocations one after the other.
\<close>

theorem createAuthProvider_refresher_bound:
  "(let this = AuthCode_new c;
        r = refresh SPOTIFY_AUTH srv this token;
        req = \<lparr>http_method = ''POST'',
                url = \<lparr>endpoint = SPOTIFY_AUTH @ ''api/token'',
                       search = CHR ''?'' # toQueryString
                         [(''refresh_token'', Some (Str token)),
                          (''grant_type'', Some (Str ''refresh_token''))]\<rparr>,
                headers =
                  [(''Authorization'',
                    ''Basic '' @ base64 (Creds.client_id c @ '':'' @ Creds.client_secret c)),
                   (''Content-Type'', ''application/x-www-form-urlencoded'')],
                body = None\<rparr>
    in AuthCode_createAuthProvider cap SPOTIFY_AUTH srv this token None = cap (Some r, None) \<and>
       (own_refresher obj = None \<longrightarrow>
          AuthCode_createAuthProvider cap SPOTIFY_AUTH srv this token (Some obj) =
            cap (Some r, Some (others obj))) \<and>
       (\<forall>v. own_refresher obj = Some v \<longrightarrow>
          AuthCode_createAuthProvider cap SPOTIFY_AUTH srv this token (Some obj) =
            cap (v, Some (others obj))) \<and>
       snd (r log) = log @ [req] \<and>
       invocations r n log = log @ replicate n req \<and>
       URLSearchParams_new (search (url req)) =
         [(''refresh_token'', token), (''grant_type'', ''refresh_token'')])"
proof -
  let ?ac = "AuthCode_new c"
  let ?req = "\<lparr>http_method = ''POST'',
                url = \<lparr>endpoint = SPOTIFY_AUTH @ ''api/token'',
                       search = CHR ''?'' # toQueryString
                         [(''refresh_token'', Some (Str token)),
                          (''grant_type'', Some (Str ''refresh_token''))]\<rparr>,
                headers =
                  [(''Authorization'',
                    ''Basic '' @ base64 (Creds.client_id c @ '':'' @ Creds.client_secret c)),
                   (''Content-Type'', ''application/x-www-form-urlencoded'')],
                body = None\<rparr>"
  have one: "snd (refresh SPOTIFY_AUTH srv ?ac token w) = w @ [?req]" for w
    by (simp add: refresh_run Let_def AuthCode_new_def getBasicAuthHeader_def URL_ENCODED_def)
  have many: "invocations (refresh SPOTIFY_AUTH srv ?ac token) n log = log @ replicate n ?req"
    using one by (rule invocations_append)
  have params: "URLSearchParams_new (search (url ?req)) =
      [(''refresh_token'', token), (''grant_type'', ''refresh_token'')]"
    by (simp add: search_params_toQueryString objectToSearchParams_def qvalue_toString_def)
  show ?thesis
    unfolding Let_def using one many params
    by (simp add: AuthCode_createAuthProvider_def)
qed

text \<open>
  No options, and options without a \<^verbatim>\<open>refresher\<close>: two invocations against the granting
  endpoint, which answers with a new refresh token.
\<close>

theorem createAuthProvider_refresher_bound_witness:
  "AuthCode_createAuthProvider fst ''https://accounts.spotify.com/'' server_granting
       (AuthCode_new example_creds) ''NgAagA'' (None :: unit OmitRefresherOpts option) =
     Some (refresh ''https://accounts.spotify.com/'' server_granting (AuthCode_new example_creds)
             ''NgAagA'') \<and>
   own_refresher \<lparr>own_refresher = None, others = ()\<rparr> = None \<and>
   AuthCode_createAuthProvider fst ''https://accounts.spotify.com/'' server_granting
       (AuthCode_new example_creds) ''NgAagA'' (Some \<lparr>own_refresher = None, others = ()\<rparr>) =
     Some (refresh ''https://accounts.spotify.com/'' server_granting (AuthCode_new example_creds)
             ''NgAagA'') \<and>
   invocations
     (refresh ''https://accounts.spotify.com/'' server_granting (AuthCode_new example_creds)
        ''NgAagA'') 2 [] =
     [\<lparr>http_method = ''POST'',
       url = \<lparr>endpoint = ''https://accounts.spotify.com/api/token'',
              search = ''?refresh_token=NgAagA&grant_type=refresh_token''\<rparr>,
       headers = [(''Authorization'', ''Basic aWQ6c2VjcmV0''),
                  (''Content-Type'', ''application/x-www-form-urlencoded'')],
       body = None\<rparr>,
      \<lparr>http_method = ''POST'',
       url = \<lparr>endpoint = ''https://accounts.spotify.com/api/token'',
              search = ''?refresh_token=NgAagA&grant_type=refresh_token''\<rparr>,
       headers = [(''Authorization'', ''Basic aWQ6c2VjcmV0''),
                  (''Content-Type'', ''application/x-www-form-urlencoded'')],
       body = None\<rparr>]"
proof -
  have q: "toQueryString [(''refresh_token'', Some (Str ''NgAagA'')),
      (''grant_type'', Some (Str ''refresh_token''))] =
    ''refresh_token=NgAagA&grant_type=refresh_token''"
    by code_simp
  have b: "base64 (Creds.client_id example_creds @ '':'' @ Creds.client_secret example_creds) =
      ''aWQ6c2VjcmV0''"
    by code_simp
  have two: "replicate 2 x = [x, x]" for x :: request
    by (simp add: numeral_2_eq_2)
  have o: "own_refresher \<lparr>own_refresher = None, others = ()\<rparr> = None"
    by simp
  note t = createAuthProvider_refresher_bound [where SPOTIFY_AUTH = "''https://accounts.spotify.com/''"
        and c = example_creds and srv = server_granting and token = "''NgAagA''"
        and obj = "\<lparr>own_refresher = None, others = ()\<rparr>" and n = 2 and log = "[]"
        and cap = fst, unfolded Let_def q b]
  have 1: "AuthCode_createAuthProvider fst ''https://accounts.spotify.com/'' server_granting
       (AuthCode_new example_creds) ''NgAagA'' (None :: unit OmitRefresherOpts option) =
     Some (refresh ''https://accounts.spotify.com/'' server_granting (AuthCode_new example_creds)
             ''NgAagA'')"
    using t [THEN conjunct1] by (simp only: fst_conv)
  have 2: "AuthCode_createAuthProvider fst ''https://accounts.spotify.com/'' server_granting
       (AuthCode_new example_creds) ''NgAagA'' (Some \<lparr>own_refresher = None, others = ()\<rparr>) =
     Some (refresh ''https://accounts.spotify.com/'' server_granting (AuthCode_new example_creds)
             ''NgAagA'')"
    using t [THEN conjunct2, THEN conjunct1, THEN mp, OF o] by (simp only: fst_conv)
  have 3: "invocations
     (refresh ''https://accounts.spotify.com/'' server_granting (AuthCode_new example_creds)
        ''NgAagA'') 2 [] =
     [\<lparr>http_method = ''POST'',
       url = \<lparr>endpoint = ''https://accounts.spotify.com/api/token'',
              search = ''?refresh_token=NgAagA&grant_type=refresh_token''\<rparr>,
       headers = [(''Authorization'', ''Basic aWQ6c2VjcmV0''),
                  (''Content-Type'', ''application/x-www-form-urlencoded'')],
       body = None\<rparr>,
      \<lparr>http_method = ''POST'',
       url = \<lparr>endpoint = ''https://accounts.spotify.com/api/token'',
              search = ''?refresh_token=NgAagA&grant_type=refresh_token''\<rparr>,
       headers = [(''Authorization'', ''Basic aWQ6c2VjcmV0''),
                  (''Content-Type'', ''application/x-www-form-urlencoded'')],
       body = None\<rparr>]"
    using t [THEN conjunct2, THEN conjunct2, THEN conjunct2, THEN conjunct2, THEN conjunct1]
    by (simp add: two)
  show ?thesis
    using 1 o 2 3 by (intro conjI)
qed

section \<open>The auth provider of the spec\<close>

lemma expired_createAuthProvider:
  "expired clock (createAuthProvider r seed) w =
     (seed = None \<or> (\<exists>c. seed = Some c \<and> expires_at c \<le> clock w))"
  by (cases seed) (simp_all add: expired_def createAuthProvider_def)

lemma getAccessToken_valid:
  "cached p = Some c \<Longrightarrow> clock w < expires_at c \<Longrightarrow>
     getAccessToken clock p w = (Inr (CachedToken.access_token c), p, w)"
  by (simp add: getAccessToken_def)

lemma getAccessToken_expired:
  "expired clock p w \<Longrightarrow>
     getAccessToken clock p w =
       (case refresher p w of
          (Inl e, w') \<Rightarrow> (Inl e, p, w')
        | (Inr t, w') \<Rightarrow>
            (Inr (TokenPair.access_token t),
             p\<lparr>cached := Some \<lparr>CachedToken.access_token = TokenPair.access_token t,
                               expires_at = clock w' + int (expires_in t)\<rparr>\<rparr>,
             w'))"
  by (auto simp: getAccessToken_def refreshAccessToken_def expired_def
      split: option.splits prod.splits sum.splits)

lemma counting_apply:
  "counting f (w, n) = (fst (f w), (snd (f w), Suc n))"
  by (simp add: counting_def split: prod.splits)

text \<open>
  Claim C4. For every provider, \<open>getAccessToken\<close> invokes the refresh function exactly
  once when the provider is empty or the expiry time of its cached token is not after the
  current time; when a cached token is present and not expired it invokes the refresh
  function zero times and returns the cached access token, leaving the world as it is (no
  network call). In particular, for a provider seeded with a token that expired in the
  past: the first call invokes the refresh function once, a second call before the new
  expiry not at all, and a call at or after the new expiry once more. The invocations are
  counted by the counter that \<open>counting\<close> puts beside the world.
\<close>

theorem getAccessToken_refresh_count:
  "(let p = createAuthProvider (counting r) seed; clk = clock \<circ> fst in
     (seed = None \<or> (\<exists>c. seed = Some c \<and> expires_at c \<le> clock w) \<longrightarrow>
        snd (snd (snd (getAccessToken clk p (w, n)))) = Suc n) \<and>
     (\<forall>c. seed = Some c \<and> clock w < expires_at c \<longrightarrow>
        getAccessToken clk p (w, n) = (Inr (CachedToken.access_token c), p, (w, n))) \<and>
     (\<forall>c t w1 w2 w3.
        seed = Some c \<and> expires_at c \<le> clock w \<and> r w = (Inr t, w1) \<and>
        clock w2 < clock w1 + int (expires_in t) \<and> clock w1 + int (expires_in t) \<le> clock w3 \<longrightarrow>
        (let (x1, p1, s1) = getAccessToken clk p (w, 0);
             (x2, p2, s2) = getAccessToken clk p1 (w2, snd s1);
             (x3, p3, s3) = getAccessToken clk p2 (w3, snd s2)
         in x1 = Inr (TokenPair.access_token t) \<and> snd s1 = 1 \<and>
            x2 = Inr (TokenPair.access_token t) \<and> snd s2 = 1 \<and> snd s3 = 2)))"
proof -
  let ?p = "createAuthProvider (counting r) seed"
  let ?clk = "clock \<circ> fst"
  have ex: "expired ?clk ?p (w, n) =
      (seed = None \<or> (\<exists>c. seed = Some c \<and> expires_at c \<le> clock w))" for w n
    by (simp add: expired_createAuthProvider)
  have once: "seed = None \<or> (\<exists>c. seed = Some c \<and> expires_at c \<le> clock w) \<longrightarrow>
      snd (snd (snd (getAccessToken ?clk ?p (w, n)))) = Suc n"
  proof
    assume "seed = None \<or> (\<exists>c. seed = Some c \<and> expires_at c \<le> clock w)"
    then have e: "expired ?clk ?p (w, n)" by (simp only: ex)
    show "snd (snd (snd (getAccessToken ?clk ?p (w, n)))) = Suc n"
      by (subst getAccessToken_expired [OF e])
        (simp add: createAuthProvider_def counting_apply split: prod.splits sum.splits)
  qed
  have zero: "\<forall>c. seed = Some c \<and> clock w < expires_at c \<longrightarrow>
      getAccessToken ?clk ?p (w, n) = (Inr (CachedToken.access_token c), ?p, (w, n))"
    by (auto intro!: getAccessToken_valid simp: createAuthProvider_def)
  have scenario: "\<forall>c t w1 w2 w3.
        seed = Some c \<and> expires_at c \<le> clock w \<and> r w = (Inr t, w1) \<and>
        clock w2 < clock w1 + int (expires_in t) \<and> clock w1 + int (expires_in t) \<le> clock w3 \<longrightarrow>
        (let (x1, p1, s1) = getAccessToken ?clk ?p (w, 0);
             (x2, p2, s2) = getAccessToken ?clk p1 (w2, snd s1);
             (x3, p3, s3) = getAccessToken ?clk p2 (w3, snd s2)
         in x1 = Inr (TokenPair.access_token t) \<and> snd s1 = 1 \<and>
            x2 = Inr (TokenPair.access_token t) \<and> snd s2 = 1 \<and> snd s3 = 2)"
  proof (intro allI impI, elim conjE)
    fix c t w1 w2 w3
    assume seed: "seed = Some c" and old: "expires_at c \<le> clock w"
      and rw: "r w = (Inr t, w1)"
      and before: "clock w2 < clock w1 + int (expires_in t)"
      and after: "clock w1 + int (expires_in t) \<le> clock w3"
    let ?c1 = "\<lparr>CachedToken.access_token = TokenPair.access_token t,
                expires_at = clock w1 + int (expires_in t)\<rparr>"
    let ?p1 = "?p\<lparr>cached := Some ?c1\<rparr>"
    have e0: "expired ?clk ?p (w, 0)" using seed old by (simp add: expired_createAuthProvider)
    have first: "getAccessToken ?clk ?p (w, 0) = (Inr (TokenPair.access_token t), ?p1, (w1, Suc 0))"
      using rw
      by (subst getAccessToken_expired [OF e0]) (simp add: createAuthProvider_def counting_apply)
    have second: "getAccessToken ?clk ?p1 (w2, Suc 0) =
        (Inr (TokenPair.access_token t), ?p1, (w2, Suc 0))"
      using before by (intro getAccessToken_valid [where c = ?c1, THEN trans]) simp_all
    have e3: "expired ?clk ?p1 (w3, Suc 0)" using after by (simp add: expired_def)
    have third: "snd (snd (snd (getAccessToken ?clk ?p1 (w3, Suc 0)))) = 2"
      by (subst getAccessToken_expired [OF e3])
        (simp add: createAuthProvider_def counting_apply split: prod.splits sum.splits)
    show "(let (x1, p1, s1) = getAccessToken ?clk ?p (w, 0);
             (x2, p2, s2) = getAccessToken ?clk p1 (w2, snd s1);
             (x3, p3, s3) = getAccessToken ?clk p2 (w3, snd s2)
         in x1 = Inr (TokenPair.access_token t) \<and> snd s1 = 1 \<and>
            x2 = Inr (TokenPair.access_token t) \<and> snd s2 = 1 \<and> snd s3 = 2)"
      using third by (simp add: first second case_prod_beta)
  qed
  show ?thesis
    unfolding Let_def using once zero scenario by (simp only: Let_def simp_thms)
qed


text \<open>
  The seed expired at 50; calls at the times 100, 200 and 3701, the token obtained at 101
  being valid for 3600 seconds.
\<close>

theorem getAccessToken_refresh_count_witness:
  "expires_at example_seed \<le> id (100 :: int) \<and>
   example_refresher 100 = (Inr example_pair, 101) \<and>
   id (200 :: int) < id 101 + int (expires_in example_pair) \<and>
   id (101 :: int) + int (expires_in example_pair) \<le> id 3701 \<and>
   (let (x1, p1, s1) =
          getAccessToken (id \<circ> fst)
            (createAuthProvider (counting example_refresher) (Some example_seed)) (100, 0);
        (x2, p2, s2) = getAccessToken (id \<circ> fst) p1 (200, snd s1);
        (x3, p3, s3) = getAccessToken (id \<circ> fst) p2 (3701, snd s2)
    in x1 = Inr (TokenPair.access_token example_pair) \<and> snd s1 = 1 \<and>
       x2 = Inr (TokenPair.access_token example_pair) \<and> snd s2 = 1 \<and> snd s3 = 2)"
proof -
  have h: "Some example_seed = Some example_seed \<and> expires_at example_seed \<le> id (100 :: int) \<and>
      example_refresher 100 = (Inr example_pair, 101) \<and>
      id (200 :: int) < id 101 + int (expires_in example_pair) \<and>
      id (101 :: int) + int (expires_in example_pair) \<le> id 3701"
    by (simp add: example_seed_def example_refresher_def example_pair_def)
  note scenario =
    getAccessToken_refresh_count [where r = example_refresher and seed = "Some example_seed"
      and clock = id and w = 100 and n = 0, unfolded Let_def,
      THEN conjunct2, THEN conjunct2, rule_format,
      of example_seed example_pair 101 200 3701]
  from scenario [OF h] h show ?thesis by simp
qed

lemma expired_later:
  "expired clock p w \<Longrightarrow> clock w \<le> clock w2 \<Longrightarrow> expired clock p w2"
  by (auto simp: expired_def split: option.splits)

text \<open>
  Claim C5. For every provider, when the refresh function fails during a call of
  \<open>getAccessToken\<close>, the failure is passed to the caller and the provider is as it was
  before: it remains empty, or keeps its expired token. No failure is cached: a next call,
  at the same time or later, finds the provider expired again and invokes the refresh
  function afresh, with the outcome of that invocation. Counted, the two calls make two
  invocations.
\<close>

theorem getAccessToken_refresh_failure:
  "(expired clock p w \<and> refresher p w = (Inl e, w') \<longrightarrow>
      getAccessToken clock p w = (Inl e, p, w') \<and>
      (\<forall>w2. clock w \<le> clock w2 \<longrightarrow>
         expired clock p w2 \<and>
         getAccessToken clock (fst (snd (getAccessToken clock p w))) w2 =
           (case refresher p w2 of
              (Inl e2, w3) \<Rightarrow> (Inl e2, p, w3)
            | (Inr t, w3) \<Rightarrow>
                (Inr (TokenPair.access_token t),
                 p\<lparr>cached := Some \<lparr>CachedToken.access_token = TokenPair.access_token t,
                                   expires_at = clock w3 + int (expires_in t)\<rparr>\<rparr>,
                 w3)))) \<and>
   ((seed = None \<or> (\<exists>c. seed = Some c \<and> expires_at c \<le> clock w)) \<and>
    r w = (Inl e, w') \<and> clock w \<le> clock w_retry \<longrightarrow>
      (let q = createAuthProvider (counting r) seed;
           (x1, p1, s1) = getAccessToken (clock \<circ> fst) q (w, n);
           (x2, p2, s2) = getAccessToken (clock \<circ> fst) p1 (w_retry, snd s1)
       in x1 = Inl e \<and> p1 = q \<and> cached p1 = seed \<and> s1 = (w', Suc n) \<and> snd s2 = Suc (Suc n) \<and>
          (\<forall>t w3. r w_retry = (Inr t, w3) \<longrightarrow> x2 = Inr (TokenPair.access_token t))))"
proof -
  have part1: "expired clock p w \<and> refresher p w = (Inl e, w') \<longrightarrow>
      getAccessToken clock p w = (Inl e, p, w') \<and>
      (\<forall>w2. clock w \<le> clock w2 \<longrightarrow>
         expired clock p w2 \<and>
         getAccessToken clock (fst (snd (getAccessToken clock p w))) w2 =
           (case refresher p w2 of
              (Inl e2, w3) \<Rightarrow> (Inl e2, p, w3)
            | (Inr t, w3) \<Rightarrow>
                (Inr (TokenPair.access_token t),
                 p\<lparr>cached := Some \<lparr>CachedToken.access_token = TokenPair.access_token t,
                                   expires_at = clock w3 + int (expires_in t)\<rparr>\<rparr>,
                 w3)))"
  proof (intro impI, elim conjE)
    assume e: "expired clock p w" and f: "refresher p w = (Inl e, w')"
    have g: "getAccessToken clock p w = (Inl e, p, w')"
      using f by (simp add: getAccessToken_expired [OF e])
    show "getAccessToken clock p w = (Inl e, p, w') \<and>
      (\<forall>w2. clock w \<le> clock w2 \<longrightarrow>
         expired clock p w2 \<and>
         getAccessToken clock (fst (snd (getAccessToken clock p w))) w2 =
           (case refresher p w2 of
              (Inl e2, w3) \<Rightarrow> (Inl e2, p, w3)
            | (Inr t, w3) \<Rightarrow>
                (Inr (TokenPair.access_token t),
                 p\<lparr>cached := Some \<lparr>CachedToken.access_token = TokenPair.access_token t,
                                   expires_at = clock w3 + int (expires_in t)\<rparr>\<rparr>,
                 w3)))"
      using expired_later [OF e] by (simp add: g getAccessToken_expired)
  qed
  have part2: "(seed = None \<or> (\<exists>c. seed = Some c \<and> expires_at c \<le> clock w)) \<and>
    r w = (Inl e, w') \<and> clock w \<le> clock w_retry \<longrightarrow>
      (let q = createAuthProvider (counting r) seed;
           (x1, p1, s1) = getAccessToken (clock \<circ> fst) q (w, n);
           (x2, p2, s2) = getAccessToken (clock \<circ> fst) p1 (w_retry, snd s1)
       in x1 = Inl e \<and> p1 = q \<and> cached p1 = seed \<and> s1 = (w', Suc n) \<and> snd s2 = Suc (Suc n) \<and>
          (\<forall>t w3. r w_retry = (Inr t, w3) \<longrightarrow> x2 = Inr (TokenPair.access_token t)))"
  proof (intro impI, elim conjE)
    let ?q = "createAuthProvider (counting r) seed"
    let ?clk = "clock \<circ> fst"
    assume old: "seed = None \<or> (\<exists>c. seed = Some c \<and> expires_at c \<le> clock w)"
      and f: "r w = (Inl e, w')" and mono: "clock w \<le> clock w_retry"
    have e1: "expired ?clk ?q (w, n)"
      using old by (simp only: expired_createAuthProvider) simp
    have e2: "expired ?clk ?q (w_retry, Suc n)"
      using expired_later [OF e1, of "(w_retry, Suc n)"] mono by simp
    have c: "cached ?q = seed" "refresher ?q = counting r"
      by (simp_all add: createAuthProvider_def)
    have g1: "getAccessToken ?clk ?q (w, n) = (Inl e, ?q, (w', Suc n))"
      using f by (subst getAccessToken_expired [OF e1]) (simp add: c counting_apply)
    have g2: "snd (snd (snd (getAccessToken ?clk ?q (w_retry, Suc n)))) = Suc (Suc n)"
      by (subst getAccessToken_expired [OF e2])
        (simp add: c counting_apply split: prod.splits sum.splits)
    have g3: "\<forall>t w3. r w_retry = (Inr t, w3) \<longrightarrow>
        fst (getAccessToken ?clk ?q (w_retry, Suc n)) = Inr (TokenPair.access_token t)"
      by (subst getAccessToken_expired [OF e2]) (simp add: c counting_apply)
    show "(let q = createAuthProvider (counting r) seed;
           (x1, p1, s1) = getAccessToken (clock \<circ> fst) q (w, n);
           (x2, p2, s2) = getAccessToken (clock \<circ> fst) p1 (w_retry, snd s1)
       in x1 = Inl e \<and> p1 = q \<and> cached p1 = seed \<and> s1 = (w', Suc n) \<and> snd s2 = Suc (Suc n) \<and>
          (\<forall>t w3. r w_retry = (Inr t, w3) \<longrightarrow> x2 = Inr (TokenPair.access_token t)))"
      using g2 g3 by (simp add: Let_def g1 c case_prod_beta)
  qed
  from part1 part2 show ?thesis by (rule conjI)
qed

text \<open>A failing refresh at the time 60, and the retry at the time 120, which succeeds.\<close>

theorem getAccessToken_refresh_failure_witness:
  "example_refresher 60 = (Inl FetchRejected, 61) \<and> id (60 :: int) \<le> id 120 \<and>
   example_refresher 120 = (Inr example_pair, 121) \<and>
   (let q = createAuthProvider (counting example_refresher) (Some example_seed);
        (x1, p1, s1) = getAccessToken (id \<circ> fst) q (60, 0);
        (x2, p2, s2) = getAccessToken (id \<circ> fst) p1 (120, snd s1)
    in x1 = Inl FetchRejected \<and> p1 = q \<and> cached p1 = Some example_seed \<and> s1 = (61, Suc 0) \<and>
       snd s2 = Suc (Suc 0) \<and> x2 = Inr (TokenPair.access_token example_pair))"
proof -
  have h: "(Some example_seed = None \<or>
       (\<exists>c. Some example_seed = Some c \<and> expires_at c \<le> id (60 :: int))) \<and>
      example_refresher 60 = (Inl FetchRejected, 61) \<and> id (60 :: int) \<le> id 120"
    by (simp add: example_seed_def example_refresher_def)
  have s: "example_refresher 120 = (Inr example_pair, 121)"
    by (simp add: example_refresher_def)
  note retry =
    getAccessToken_refresh_failure [where r = example_refresher and seed = "Some example_seed"
      and clock = id and w = 60 and w' = 61 and w_retry = 120 and n = 0 and e = FetchRejected,
      THEN conjunct2, rule_format]
  from retry [OF h] h s show ?thesis
    by (auto simp: Let_def case_prod_beta)
qed

end
